theory Spec2Isabelle
  imports Complex_Main "HOL-Library.Sublist"
begin

section \<open>JavaScript values\<close>

text \<open>
  The hook receives the backend's reply as \<^verbatim>\<open>any\<close>: whatever \<^verbatim>\<open>response.json()\<close>
  parsed. A value is therefore one of the JSON shapes, plus \<^verbatim>\<open>undefined\<close> (a missing
  property) and \<^verbatim>\<open>NaN\<close> (which \<^verbatim>\<open>parseInt\<close> and subtraction can produce). Numbers are
  exact reals: the rounding of IEEE doubles and the infinities are outside this model.
  An object is the list of its own properties in insertion order, each key once.
\<close>

datatype jsval =
    JUndefined
  | JNull
  | JBool bool
  | JNum real
  | JNaN
  | JStr string
  | JArr "jsval list"
  | JObj "(string \<times> jsval) list"

datatype js_exn = TypeError | SyntaxError | ReferenceError | NetworkError | Error string

fun truthy :: "jsval \<Rightarrow> bool" where
  "truthy JUndefined = False"
| "truthy JNull = False"
| "truthy (JBool b) = b"
| "truthy (JNum r) = (r \<noteq> 0)"
| "truthy JNaN = False"
| "truthy (JStr s) = (s \<noteq> [])"
| "truthy (JArr xs) = True"
| "truthy (JObj kvs) = True"

fun nullish :: "jsval \<Rightarrow> bool" where
  "nullish JUndefined = True"
| "nullish JNull = True"
| "nullish v = False"

text \<open>\<^verbatim>\<open>a || b\<close>, where evaluating \<^verbatim>\<open>b\<close> cannot throw.\<close>

definition js_or :: "jsval \<Rightarrow> jsval \<Rightarrow> jsval" where
  "js_or a b = (if truthy a then a else b)"

text \<open>
  \<^verbatim>\<open>v.k\<close> and \<^verbatim>\<open>v['k']\<close> on a receiver that is neither \<^verbatim>\<open>null\<close> nor \<^verbatim>\<open>undefined\<close>
  (on those the read throws; every caller below checks first). Only objects parsed from
  JSON have own properties under the names this program reads; on strings, numbers,
  booleans and arrays those names are absent from the prototype chain as well.
\<close>

fun get_prop :: "jsval \<Rightarrow> string \<Rightarrow> jsval" where
  "get_prop (JObj kvs) k = (case map_of kvs k of Some v \<Rightarrow> v | None \<Rightarrow> JUndefined)"
| "get_prop v k = JUndefined"

text \<open>\<^verbatim>\<open>v?.k\<close>: \<^verbatim>\<open>undefined\<close> on a nullish receiver, the property otherwise.\<close>

definition opt :: "jsval \<Rightarrow> string \<Rightarrow> jsval" where
  "opt v k = (if nullish v then JUndefined else get_prop v k)"

definition digit_char :: "nat \<Rightarrow> char" where
  "digit_char d = ''0123456789'' ! d"

fun show_nat :: "nat \<Rightarrow> string" where
  "show_nat n = (if n < 10 then [digit_char n] else show_nat (n div 10) @ [digit_char (n mod 10)])"

declare show_nat.simps [simp del]

text \<open>
  \<^verbatim>\<open>v?.[i]\<close> for a literal index: an array element, a one-character string, an object's
  property named by the index, and \<^verbatim>\<open>undefined\<close> on anything else.
\<close>

fun opt_index :: "jsval \<Rightarrow> nat \<Rightarrow> jsval" where
  "opt_index (JArr xs) i = (if i < length xs then xs ! i else JUndefined)"
| "opt_index (JStr s) i = (if i < length s then JStr [s ! i] else JUndefined)"
| "opt_index (JObj kvs) i = get_prop (JObj kvs) (show_nat i)"
| "opt_index v i = JUndefined"

text \<open>\<^verbatim>\<open>Object.keys(v).length > 0\<close> on a receiver that is not nullish.\<close>

fun has_keys :: "jsval \<Rightarrow> bool" where
  "has_keys (JObj kvs) = (kvs \<noteq> [])"
| "has_keys (JArr xs) = (xs \<noteq> [])"
| "has_keys (JStr s) = (s \<noteq> [])"
| "has_keys v = False"

section \<open>The runtime\<close>

text \<open>
  What the code takes from the browser rather than from its arguments: the page's
  location, the clock, and the library conversions between numbers and text
  (\<^verbatim>\<open>Number.prototype.toString\<close>, \<^verbatim>\<open>toFixed\<close>, the string-to-number coercion of
  \<^verbatim>\<open>-\<close>, and \<^verbatim>\<open>parseInt\<close> on a string). The conversions are parameters: every theorem
  below holds for any implementation of them. What the code reaches through the identifier
  \<^verbatim>\<open>window\<close> exists only where \<open>window_location\<close> is given; the globals it calls by
  their bare names (\<^verbatim>\<open>fetch\<close>, \<^verbatim>\<open>alert\<close>, \<^verbatim>\<open>console\<close>, \<^verbatim>\<open>navigator\<close>) are taken to exist.
\<close>

record js_runtime =
  window_location :: "(string \<times> string) option"
  date_now :: int
  number_to_string :: "real \<Rightarrow> string"
  to_fixed :: "nat \<Rightarrow> real \<Rightarrow> string"
  string_to_number :: "string \<Rightarrow> jsval"
  parse_int :: "string \<Rightarrow> jsval"

text \<open>One step after another: the second runs on the value of the first unless that threw.\<close>

definition and_then :: "js_exn + 'a \<Rightarrow> ('a \<Rightarrow> js_exn + 'b) \<Rightarrow> js_exn + 'b" where
  "and_then m f = (case m of Inl x \<Rightarrow> Inl x | Inr v \<Rightarrow> f v)"

fun join_comma :: "string list \<Rightarrow> string" where
  "join_comma [] = []"
| "join_comma [s] = s"
| "join_comma (s # t # ss) = s @ '','' @ join_comma (t # ss)"

text \<open>
  The \<^verbatim>\<open>ToString\<close> coercion of template literals, of \<^verbatim>\<open>parseInt\<close>'s argument, of
  \<^verbatim>\<open>new Error\<close>'s message and of the address given to \<^verbatim>\<open>window.open\<close>. An object
  parsed from JSON is converted through its \<^verbatim>\<open>toString\<close> and \<^verbatim>\<open>valueOf\<close>. With an own
  property named \<^verbatim>\<open>toString\<close>, which no JSON value makes callable, only \<^verbatim>\<open>valueOf\<close> is
  left; the inherited one returns the object itself, an own one is not callable either, and
  the conversion throws a TypeError. Without that property the inherited \<^verbatim>\<open>toString\<close>
  answers \<^verbatim>\<open>[object Object]\<close>. An array joins the conversions of its elements, with the
  empty string for \<^verbatim>\<open>null\<close> and \<^verbatim>\<open>undefined\<close>, and throws where an element does.
\<close>

fun to_string :: "js_runtime \<Rightarrow> jsval \<Rightarrow> js_exn + string"
  and to_strings :: "js_runtime \<Rightarrow> jsval list \<Rightarrow> js_exn + string list" where
  "to_string rt JUndefined = Inr ''undefined''"
| "to_string rt JNull = Inr ''null''"
| "to_string rt (JBool b) = Inr (if b then ''true'' else ''false'')"
| "to_string rt (JNum r) = Inr (number_to_string rt r)"
| "to_string rt JNaN = Inr ''NaN''"
| "to_string rt (JStr s) = Inr s"
| "to_string rt (JArr xs) =
     (case to_strings rt xs of Inl x \<Rightarrow> Inl x | Inr ss \<Rightarrow> Inr (join_comma ss))"
| "to_string rt (JObj kvs) =
     (if map_of kvs ''toString'' = None then Inr ''[object Object]'' else Inl TypeError)"
| "to_strings rt [] = Inr []"
| "to_strings rt (v # vs) =
     (case (if v = JUndefined \<or> v = JNull then Inr [] else to_string rt v) of
        Inl x \<Rightarrow> Inl x
      | Inr s \<Rightarrow> (case to_strings rt vs of Inl x \<Rightarrow> Inl x | Inr ss \<Rightarrow> Inr (s # ss)))"

text \<open>
  The \<^verbatim>\<open>ToNumber\<close> coercion of the operands of \<^verbatim>\<open>-\<close>. An array or object is first made
  primitive; its inherited \<^verbatim>\<open>valueOf\<close> returns the value itself, so the text of
  \<^verbatim>\<open>toString\<close> is what gets read as a number, and the conversion throws where
  \<^verbatim>\<open>ToString\<close> does.
\<close>

fun to_number :: "js_runtime \<Rightarrow> jsval \<Rightarrow> js_exn + jsval" where
  "to_number rt JUndefined = Inr JNaN"
| "to_number rt JNull = Inr (JNum 0)"
| "to_number rt (JBool b) = Inr (JNum (if b then 1 else 0))"
| "to_number rt (JNum r) = Inr (JNum r)"
| "to_number rt JNaN = Inr JNaN"
| "to_number rt (JStr s) = Inr (string_to_number rt s)"
| "to_number rt v = and_then (to_string rt v) (\<lambda>s. Inr (string_to_number rt s))"

text \<open>\<^verbatim>\<open>a - b\<close>: the left operand is converted first.\<close>

definition js_sub :: "js_runtime \<Rightarrow> jsval \<Rightarrow> jsval \<Rightarrow> js_exn + jsval" where
  "js_sub rt a b =
     and_then (to_number rt a) (\<lambda>x.
     and_then (to_number rt b) (\<lambda>y.
       Inr (case (x, y) of (JNum p, JNum q) \<Rightarrow> JNum (p - q) | _ \<Rightarrow> JNaN)))"

definition parseInt :: "js_runtime \<Rightarrow> jsval \<Rightarrow> js_exn + jsval" where
  "parseInt rt v = and_then (to_string rt v) (\<lambda>s. Inr (parse_int rt s))"

text \<open>
  \<^verbatim>\<open>v.toFixed(d)\<close>: only numbers have the method; on any other value parsed from JSON
  the call throws a TypeError.
\<close>

fun call_toFixed :: "js_runtime \<Rightarrow> jsval \<Rightarrow> nat \<Rightarrow> js_exn + string" where
  "call_toFixed rt (JNum r) d = Inr (to_fixed rt d r)"
| "call_toFixed rt JNaN d = Inr ''NaN''"
| "call_toFixed rt v d = Inl TypeError"

section \<open>Upload validation (ImageUpload.tsx)\<close>

record js_file =
  file_name :: string
  file_size :: nat
  file_type :: string

definition validateFile :: "js_file \<Rightarrow> string option" where
  "validateFile f =
     (if \<not> prefix ''image/'' (file_type f) then Some ''Please upload a valid image file''
      else if file_size f > 10 * 1024 * 1024 then Some ''File size must be less than 10MB''
      else None)"

record upload_state =
  dragActive :: bool
  error :: "string option"

text \<open>
  \<^verbatim>\<open>handleFiles\<close> returns the component's new state and the file handed to
  \<^verbatim>\<open>onImageUpload\<close>, if it was called. \<^verbatim>\<open>if (validationError)\<close> tests truthiness:
  \<^verbatim>\<open>null\<close> and the empty string both pass.
\<close>

definition handleFiles :: "upload_state \<Rightarrow> js_file list option \<Rightarrow> upload_state \<times> js_file option" where
  "handleFiles st files =
     (case files of
        None \<Rightarrow> (st, None)
      | Some [] \<Rightarrow> (st, None)
      | Some (f # rest) \<Rightarrow>
          (case validateFile f of
             Some validationError \<Rightarrow>
               (if validationError \<noteq> [] then (st\<lparr>error := Some validationError\<rparr>, None)
                else (st\<lparr>error := None\<rparr>, Some f))
           | None \<Rightarrow> (st\<lparr>error := None\<rparr>, Some f)))"

section \<open>The hook's state (useForensics.ts)\<close>

record hook_state =
  isAnalyzing :: bool
  results :: "jsval option"
  uploadedImage :: "js_file option"
  sessionIdRef :: jsval

definition resetAnalysis :: "hook_state \<Rightarrow> hook_state" where
  "resetAnalysis st = st\<lparr>results := None, uploadedImage := None, isAnalyzing := False\<rparr>"

section \<open>The report built from the backend's reply (useForensics.ts)\<close>

definition getApiBaseUrl :: "js_runtime \<Rightarrow> string" where
  "getApiBaseUrl rt =
     (case window_location rt of
        Some (hostname, origin) \<Rightarrow>
          (if hostname = ''localhost'' then ''http://localhost:8000'' else origin)
      | None \<Rightarrow> ''http://localhost:8000'')"

text \<open>
  The image dimensions, written out four times in the source (twice in the metadata,
  twice in the file information):
  \<^verbatim>\<open>hasExifData ? parseInt(exifData[k1] || exifData[k2] || '0') : 0\<close>.
\<close>

definition exif_dimension ::
    "js_runtime \<Rightarrow> bool \<Rightarrow> jsval \<Rightarrow> string \<Rightarrow> string \<Rightarrow> js_exn + jsval" where
  "exif_dimension rt hasExifData exifData k1 k2 =
     (if hasExifData
      then parseInt rt (js_or (js_or (get_prop exifData k1) (get_prop exifData k2)) (JStr ''0''))
      else Inr (JNum 0))"

definition metadata_slot ::
    "js_runtime \<Rightarrow> bool \<Rightarrow> jsval \<Rightarrow> jsval \<Rightarrow> jsval \<Rightarrow> js_exn + jsval" where
  "metadata_slot rt hasExifData exifData exifMessage exifSuggestion =
     (let no = JStr ''No EXIF data''; unk = JStr ''Unknown''; e = get_prop exifData in
      and_then (exif_dimension rt hasExifData exifData ''EXIF ExifImageWidth'' ''Image ImageWidth'')
        (\<lambda>width.
      and_then (exif_dimension rt hasExifData exifData ''EXIF ExifImageLength'' ''Image ImageLength'')
        (\<lambda>height.
      Inr (JObj [
        (''camera'', if hasExifData then js_or (js_or (e ''Make'') (e ''Image Make'')) unk else no),
        (''lens'', if hasExifData then js_or (js_or (e ''Model'') (e ''Image Model'')) unk else no),
        (''settings'', JObj [
           (''iso'',
              if hasExifData then js_or (js_or (e ''ISO'') (e ''EXIF ISOSpeedRatings'')) unk else no),
           (''aperture'',
              if hasExifData then js_or (js_or (e ''FNumber'') (e ''EXIF FNumber'')) unk else no),
           (''shutterSpeed'',
              if hasExifData then js_or (js_or (e ''ExposureTime'') (e ''EXIF ExposureTime'')) unk
              else no),
           (''focalLength'',
              if hasExifData then js_or (js_or (e ''FocalLength'') (e ''EXIF FocalLength'')) unk
              else no)]),
        (''timestamp'',
           if hasExifData
           then js_or (js_or (js_or (e ''DateTimeOriginal'') (e ''EXIF DateTimeOriginal''))
                         (e ''DateTime'')) unk
           else no),
        (''software'', if hasExifData then js_or (e ''Software'') unk else no),
        (''orientation'', if hasExifData then js_or (e ''Image Orientation'') unk else no),
        (''resolution'', JObj [
           (''x'', if hasExifData then js_or (e ''Image XResolution'') unk else no),
           (''y'', if hasExifData then js_or (e ''Image YResolution'') unk else no)]),
        (''message'', exifMessage),
        (''suggestion'', exifSuggestion),
        (''dimensions'', JObj [(''width'', width), (''height'', height)])]))))"

text \<open>
  The three analyzer slots. Each is a function of the one entry of the reply that the
  object literal reads for it: \<^verbatim>\<open>results.tamper_detection\<close>,
  \<^verbatim>\<open>results.ai_detection?.ai_detection\<close> and
  \<^verbatim>\<open>results.face_detection?.face_detection\<close>. The template literal after \<^verbatim>\<open>||\<close> is
  evaluated only when the entry's \<^verbatim>\<open>error\<close> is falsy, and its \<^verbatim>\<open>toFixed\<close> call throws
  on a score that is not a number.
\<close>

definition tamper_slot :: "js_runtime \<Rightarrow> jsval \<Rightarrow> js_exn + jsval" where
  "tamper_slot rt tamper_detection =
     (let score = js_or (opt tamper_detection ''integrity_score'') (JNum 0);
          err = opt tamper_detection ''error''
      in case (if truthy err then Inr err
               else case call_toFixed rt score 3 of
                      Inl x \<Rightarrow> Inl x
                    | Inr s \<Rightarrow>
                        Inr (JStr (''Tamper detection completed. Integrity score: '' @ s))) of
           Inl x \<Rightarrow> Inl x
         | Inr analysis \<Rightarrow>
             Inr (JObj [
               (''confidence'', score),
               (''compressionArtifacts'', JBool False),
               (''doubleJpeg'', JBool False),
               (''analysis'', analysis)]))"

definition aiAnalysis_slot :: "js_runtime \<Rightarrow> jsval \<Rightarrow> js_exn + jsval" where
  "aiAnalysis_slot rt ai_detection =
     (let score = js_or (opt ai_detection ''confidence_score'') (JNum 0);
          is_ai = opt ai_detection ''is_ai_generated'';
          err = opt ai_detection ''error''
      in case (if truthy err then Inr err
               else case call_toFixed rt score 3 of
                      Inl x \<Rightarrow> Inl x
                    | Inr s \<Rightarrow>
                        Inr (JStr (''AI detection completed. ''
                                   @ (if truthy is_ai then ''AI generated'' else ''Natural'')
                                   @ '' image with '' @ s @ '' confidence.''))) of
           Inl x \<Rightarrow> Inl x
         | Inr analysis \<Rightarrow>
             Inr (JObj [
               (''confidence'', score),
               (''isAiGenerated'', js_or is_ai (JBool False)),
               (''indicators'',
                  JArr (if truthy err then [JStr ''Analysis failed'']
                        else [JStr (if truthy is_ai then ''AI generated content detected''
                                    else ''Natural image detected'')])),
               (''analysis'', analysis)]))"

text \<open>
  The callback of \<^verbatim>\<open>faces.map\<close>: \<^verbatim>\<open>face.emotion\<close> is read for the log before
  anything else, which throws on a \<^verbatim>\<open>null\<close> entry. The two subtractions of the box
  convert their operands to numbers, which throws on an operand that has no primitive.
\<close>

definition face_callback :: "js_runtime \<Rightarrow> nat \<Rightarrow> jsval \<Rightarrow> js_exn + jsval" where
  "face_callback rt index face =
     (if nullish face then Inl TypeError
      else
        let bounding_box = get_prop face ''bounding_box'' in
        and_then (js_sub rt (js_or (opt_index bounding_box 2) (JNum 0))
                            (js_or (opt_index bounding_box 0) (JNum 0)))
          (\<lambda>width.
        and_then (js_sub rt (js_or (opt_index bounding_box 3) (JNum 0))
                            (js_or (opt_index bounding_box 1) (JNum 0)))
          (\<lambda>height.
        Inr (JObj [
          (''id'', JStr (''face_'' @ show_nat (index + 1))),
          (''confidence'', js_or (get_prop face ''confidence'') (JNum 0)),
          (''age'', js_or (get_prop face ''age'') (JStr ''Unknown'')),
          (''gender'', js_or (get_prop face ''gender'') (JStr ''Unknown'')),
          (''emotion'', js_or (opt (get_prop face ''emotion'') ''emotion'') (JStr ''Unknown'')),
          (''bbox'', JObj [
             (''x'', js_or (opt_index bounding_box 0) (JNum 0)),
             (''y'', js_or (opt_index bounding_box 1) (JNum 0)),
             (''width'', width),
             (''height'', height)])]))))"

fun map_faces :: "js_runtime \<Rightarrow> nat \<Rightarrow> jsval list \<Rightarrow> js_exn + jsval list" where
  "map_faces rt index [] = Inr []"
| "map_faces rt index (face # rest) =
     (case face_callback rt index face of
        Inl x \<Rightarrow> Inl x
      | Inr y \<Rightarrow>
          (case map_faces rt (Suc index) rest of
             Inl x \<Rightarrow> Inl x
           | Inr ys \<Rightarrow> Inr (y # ys)))"

text \<open>
  \<^verbatim>\<open>faces?.map(...) || []\<close>: \<^verbatim>\<open>undefined\<close>, hence \<^verbatim>\<open>[]\<close>, on a nullish \<^verbatim>\<open>faces\<close>; the
  mapped array on an array; a TypeError on anything else, which has no \<^verbatim>\<open>map\<close> method.
  The text of the analysis puts the count into a template literal when the entry carries no
  error.
\<close>

definition faceAnalysis_slot :: "js_runtime \<Rightarrow> jsval \<Rightarrow> js_exn + jsval" where
  "faceAnalysis_slot rt face_detection =
     (let cnt = js_or (opt face_detection ''count'') (JNum 0);
          faces = opt face_detection ''faces'';
          err = opt face_detection ''error''
      in and_then
           (if nullish faces then Inr (JArr [])
            else case faces of
                   JArr xs \<Rightarrow>
                     (case map_faces rt 0 xs of Inl x \<Rightarrow> Inl x | Inr ys \<Rightarrow> Inr (JArr ys))
                 | _ \<Rightarrow> Inl TypeError)
           (\<lambda>mapped.
         and_then
           (if truthy err then Inr err
            else and_then (to_string rt cnt)
                   (\<lambda>s. Inr (JStr (''Face detection completed. Found '' @ s @ '' face(s).''))))
           (\<lambda>analysis.
         Inr (JObj [(''count'', cnt), (''faces'', mapped), (''analysis'', analysis)]))))"

definition fileInfo_slot ::
    "js_runtime \<Rightarrow> bool \<Rightarrow> jsval \<Rightarrow> jsval \<Rightarrow> js_file \<Rightarrow> js_exn + jsval" where
  "fileInfo_slot rt hasExifData exifData pythonData f =
     (let e = get_prop exifData in
      and_then (exif_dimension rt hasExifData exifData ''EXIF ExifImageWidth'' ''Image ImageWidth'')
        (\<lambda>width.
      and_then (exif_dimension rt hasExifData exifData ''EXIF ExifImageLength'' ''Image ImageLength'')
        (\<lambda>height.
      Inr (JObj [
        (''filename'', JStr (file_name f)),
        (''size'', JStr (to_fixed rt 2 (real (file_size f) / 1024) @ '' KB'')),
        (''type'', JStr (file_type f)),
        (''dimensions'', JObj [(''width'', width), (''height'', height)]),
        (''hash'', js_or (get_prop pythonData ''image_id'') (JStr ''unknown'')),
        (''colorSpace'',
           if hasExifData then js_or (e ''EXIF ColorSpace'') (JStr ''Unknown'')
           else JStr ''No EXIF data''),
        (''bitDepth'', JNum 8),
        (''compression'', JStr ''Unknown'')]))))"

text \<open>
  \<^verbatim>\<open>transformPythonResponse(pythonData, file)\<close>, with the value of
  \<^verbatim>\<open>sessionIdRef.current\<close> at the call as an argument. Reading \<^verbatim>\<open>pythonData.results\<close>
  throws on \<^verbatim>\<open>null\<close>; \<^verbatim>\<open>results\<close> and \<^verbatim>\<open>exifData\<close> are truthy or \<^verbatim>\<open>{}\<close>, so the reads
  on them never throw. The properties of the literal are evaluated in the order written;
  the template literal of \<^verbatim>\<open>publicImageUrl\<close> converts \<^verbatim>\<open>pythonData.image_id\<close> to text.
  Every exception the function can raise is a TypeError.
\<close>

definition transformPythonResponse ::
    "js_runtime \<Rightarrow> jsval \<Rightarrow> jsval \<Rightarrow> js_file \<Rightarrow> js_exn + jsval" where
  "transformPythonResponse rt sessionIdRef_current pythonData f =
     (if nullish pythonData then Inl TypeError
      else
        let results = js_or (get_prop pythonData ''results'') (JObj []);
            exifData = js_or (get_prop results ''exif_data'') (JObj []);
            hasExifData = (has_keys exifData \<and> \<not> truthy (get_prop exifData ''error''));
            exifMessage = get_prop results ''message'';
            exifSuggestion = get_prop results ''suggestion''
        in
        and_then (metadata_slot rt hasExifData exifData exifMessage exifSuggestion)
          (\<lambda>metadata.
        and_then (tamper_slot rt (get_prop results ''tamper_detection''))
          (\<lambda>tamper.
        and_then (aiAnalysis_slot rt (opt (get_prop results ''ai_detection'') ''ai_detection''))
          (\<lambda>aiAnalysis.
        and_then (faceAnalysis_slot rt
                    (opt (get_prop results ''face_detection'') ''face_detection''))
          (\<lambda>faceAnalysis.
        and_then (fileInfo_slot rt hasExifData exifData pythonData f)
          (\<lambda>fileInfo.
        and_then (to_string rt (get_prop pythonData ''image_id''))
          (\<lambda>image_id_text.
        Inr (JObj [
          (''metadata'', metadata),
          (''tamper'', tamper),
          (''aiAnalysis'', aiAnalysis),
          (''faceAnalysis'', faceAnalysis),
          (''fileInfo'', fileInfo),
          (''imageId'', js_or (get_prop pythonData ''image_id'') (JStr ''unknown'')),
          (''publicImageUrl'', JStr (getApiBaseUrl rt @ ''/image/'' @ image_id_text)),
          (''sessionId'', js_or (get_prop pythonData ''session_id'') sessionIdRef_current),
          (''expiresAt'', JNum (real_of_int (date_now rt) + 60 * 60 * 1000))]))))))))"

section \<open>Running an analysis (useForensics.ts)\<close>

text \<open>
  What \<^verbatim>\<open>fetch\<close> hands back is an input of the model: the promise rejects, or a response
  arrives with its \<^verbatim>\<open>ok\<close> flag, status, status text and body. The body is the value
  \<^verbatim>\<open>response.json()\<close> resolves to, or \<open>None\<close> when it rejects because the body is
  not JSON.
\<close>

datatype fetch_outcome =
    FetchRejected
  | Response bool int string "jsval option"

text \<open>
  The \<^verbatim>\<open>try\<close> block of \<^verbatim>\<open>analyzeImage\<close>: the new value of \<^verbatim>\<open>sessionIdRef.current\<close>,
  which is assigned before the statements that can still throw, and either the exception
  that leaves the block or the transformed report. \<^verbatim>\<open>data.session_id.substring\<close>
  exists on strings only. \<^verbatim>\<open>new Error(m)\<close> converts \<^verbatim>\<open>m\<close> to text, and where that throws
  the TypeError is what leaves the block.
\<close>

definition analyze_try ::
    "js_runtime \<Rightarrow> jsval \<Rightarrow> js_file \<Rightarrow> fetch_outcome \<Rightarrow> jsval \<times> (js_exn + jsval)" where
  "analyze_try rt ref f outcome =
     (case outcome of
        FetchRejected \<Rightarrow> (ref, Inl NetworkError)
      | Response ok status statusText body \<Rightarrow>
          if \<not> ok then
            (let errorData = (case body of Some j \<Rightarrow> j | None \<Rightarrow> JObj []) in
             if nullish errorData then (ref, Inl TypeError)
             else
               (case to_string rt
                       (js_or (js_or (get_prop errorData ''detail'') (get_prop errorData ''error''))
                          (JStr (''HTTP '' @ number_to_string rt (real_of_int status) @ '': ''
                                 @ statusText))) of
                  Inl x \<Rightarrow> (ref, Inl x)
                | Inr message \<Rightarrow> (ref, Inl (Error message))))
          else
            (case body of
               None \<Rightarrow> (ref, Inl SyntaxError)
             | Some data \<Rightarrow>
                 if nullish data then (ref, Inl TypeError)
                 else if truthy (get_prop data ''session_id'') then
                   (case get_prop data ''session_id'' of
                      JStr sid \<Rightarrow> (JStr sid, transformPythonResponse rt (JStr sid) data f)
                    | other \<Rightarrow> (other, Inl TypeError))
                 else (ref, transformPythonResponse rt ref data f)))"

text \<open>
  \<^verbatim>\<open>analyzeImage\<close> returns the hook's state once the promise has settled, and the
  exception the \<^verbatim>\<open>catch\<close> block reported through \<^verbatim>\<open>alert\<close>, if there was one.
\<close>

definition analyzeImage ::
    "js_runtime \<Rightarrow> hook_state \<Rightarrow> js_file \<Rightarrow> fetch_outcome \<Rightarrow> hook_state \<times> js_exn option" where
  "analyzeImage rt st f outcome =
     (let st1 = st\<lparr>isAnalyzing := True, uploadedImage := Some f\<rparr>;
          attempt = analyze_try rt (sessionIdRef st1) f outcome;
          st2 = st1\<lparr>sessionIdRef := fst attempt\<rparr>
      in case snd attempt of
           Inr transformedResults \<Rightarrow>
             (st2\<lparr>results := Some transformedResults, isAnalyzing := False\<rparr>, None)
         | Inl x \<Rightarrow> (st2\<lparr>results := None, isAnalyzing := False\<rparr>, Some x))"

section \<open>The report view (ForensicsReport.tsx)\<close>

text \<open>
  \<^verbatim>\<open>formatExpiryTime\<close>. Times are whole milliseconds, as \<^verbatim>\<open>Date.now()\<close> returns them
  and as the hook stores them in \<^verbatim>\<open>expiresAt\<close>; on positive integers \<^verbatim>\<open>Math.floor\<close> of a
  quotient is \<open>div\<close>.
\<close>

definition formatExpiryTime :: "js_runtime \<Rightarrow> int \<Rightarrow> string" where
  "formatExpiryTime rt expiresAt =
     (let now = date_now rt;
          timeLeft = expiresAt - now
      in if timeLeft \<le> 0 then ''Expired''
         else
           let minutes = timeLeft div (1000 * 60);
               hours = minutes div 60
           in if hours > 0
              then show_nat (nat hours) @ ''h '' @ show_nat (nat (minutes mod 60)) @ ''m remaining''
              else show_nat (nat minutes) @ ''m remaining'')"

text \<open>The type \<^verbatim>\<open>'google' | 'bing' | 'yandex' | 'tineye'\<close> of the engine argument.\<close>

datatype engine = Google | Bing | Yandex | Tineye

fun engine_name :: "engine \<Rightarrow> string" where
  "engine_name Google = ''google''"
| "engine_name Bing = ''bing''"
| "engine_name Yandex = ''yandex''"
| "engine_name Tineye = ''tineye''"

definition fallbackUrls :: "(string \<times> string) list" where
  "fallbackUrls =
     [(''google'', ''https://www.google.com/imghp?hl=en&tab=wi&authuser=0&ogbl''),
      (''bing'', ''https://www.bing.com/images/search?view=detailv2&iss=sbi&form=SBIVSP''),
      (''yandex'', ''https://yandex.com/images/''),
      (''tineye'', ''https://tineye.com/'')]"

text \<open>The component's own \<^verbatim>\<open>getApiBaseUrl\<close>, which reads \<^verbatim>\<open>window.location\<close> unguarded.\<close>

definition getApiBaseUrl_report :: "js_runtime \<Rightarrow> js_exn + string" where
  "getApiBaseUrl_report rt =
     (case window_location rt of
        None \<Rightarrow> Inl ReferenceError
      | Some (hostname, origin) \<Rightarrow>
          Inr (if hostname = ''localhost'' then ''http://localhost:8000'' else origin))"

record report_state =
  activeTab :: string
  searchLoading :: "string option"

text \<open>
  What the user and the network see of one reverse search, in order: the request, the
  window opened, the clipboard fallback, the alerts.
\<close>

datatype ui_effect =
    Fetch string
  | WindowOpen jsval
  | ClipboardWrite jsval
  | AlertPopupBlocked jsval
  | AlertFailed string js_exn

text \<open>
  What \<^verbatim>\<open>window.open\<close> returns is an input: a window, or \<^verbatim>\<open>null\<close> when the popup is
  blocked. For a blocked popup the input also says with which exception
  \<^verbatim>\<open>navigator.clipboard.writeText\<close> fails, if it fails.
\<close>

datatype popup_outcome = WindowOpened | PopupBlocked "js_exn option"

text \<open>
  The request of \<^verbatim>\<open>performReverseSearch\<close>, a template literal that converts the image id
  and the session id to text, in this order.
\<close>

definition reverse_request_url ::
    "js_runtime \<Rightarrow> string \<Rightarrow> engine \<Rightarrow> jsval \<Rightarrow> jsval \<Rightarrow> js_exn + string" where
  "reverse_request_url rt base e imageId sessionId =
     and_then (to_string rt imageId) (\<lambda>image_id_text.
     and_then (to_string rt sessionId) (\<lambda>session_id_text.
       Inr (base @ ''/api/v1/reverse/'' @ engine_name e @ ''?image_id='' @ image_id_text
            @ ''&session_id='' @ session_id_text)))"

text \<open>
  \<^verbatim>\<open>window.open(url, ...)\<close>: a ReferenceError without a window; otherwise the address is
  converted to text unless it is \<^verbatim>\<open>undefined\<close>, and the window is asked for.
\<close>

definition window_open :: "js_runtime \<Rightarrow> jsval \<Rightarrow> js_exn + ui_effect" where
  "window_open rt url =
     (case window_location rt of
        None \<Rightarrow> Inl ReferenceError
      | Some location \<Rightarrow>
          if url = JUndefined then Inr (WindowOpen url)
          else and_then (to_string rt url) (\<lambda>text. Inr (WindowOpen url)))"

text \<open>\<^verbatim>\<open>results?.imageId\<close>, for the hook's \<^verbatim>\<open>results\<close>, which is a report or \<^verbatim>\<open>null\<close>.\<close>

definition results_imageId :: "jsval option \<Rightarrow> jsval" where
  "results_imageId results_now = (case results_now of None \<Rightarrow> JUndefined | Some r \<Rightarrow> opt r ''imageId'')"

text \<open>
  The \<^verbatim>\<open>try\<close> block of \<^verbatim>\<open>performReverseSearch\<close>: the effects so far and the exception,
  if one leaves the block.
\<close>

definition reverse_try ::
    "js_runtime \<Rightarrow> jsval option \<Rightarrow> jsval \<Rightarrow> engine \<Rightarrow> fetch_outcome \<Rightarrow> popup_outcome
       \<Rightarrow> ui_effect list \<times> js_exn option" where
  "reverse_try rt results_now sessionId e outcome popup =
     (let imageId = results_imageId results_now in
      if truthy imageId \<and> truthy sessionId then
        (case getApiBaseUrl_report rt of
           Inl x \<Rightarrow> ([], Some x)
         | Inr base \<Rightarrow>
        (case reverse_request_url rt base e imageId sessionId of
           Inl x \<Rightarrow> ([], Some x)
         | Inr url \<Rightarrow>
             let request = Fetch url in
             (case outcome of
                FetchRejected \<Rightarrow> ([request], Some NetworkError)
              | Response ok status statusText body \<Rightarrow>
                  (case body of
                     None \<Rightarrow> ([request], Some SyntaxError)
                   | Some data \<Rightarrow>
                       if nullish data then ([request], Some TypeError)
                       else if ok then
                         (let search_url = get_prop data ''search_url'' in
                          case window_open rt search_url of
                            Inl x \<Rightarrow> ([request], Some x)
                          | Inr opened \<Rightarrow>
                              (case popup of
                                 WindowOpened \<Rightarrow> ([request, opened], None)
                               | PopupBlocked None \<Rightarrow>
                                   ([request, opened, ClipboardWrite search_url,
                                     AlertPopupBlocked search_url], None)
                               | PopupBlocked (Some x) \<Rightarrow> ([request, opened], Some x)))
                       else
                         (case to_string rt
                                 (js_or (get_prop data ''detail'')
                                    (JStr (''Failed to generate '' @ engine_name e
                                           @ '' search URL''))) of
                            Inl x \<Rightarrow> ([request], Some x)
                          | Inr message \<Rightarrow> ([request], Some (Error message)))))))
      else
        (let fallback = (case map_of fallbackUrls (engine_name e) of
                           Some u \<Rightarrow> JStr u
                         | None \<Rightarrow> JUndefined) in
         case window_open rt fallback of
           Inl x \<Rightarrow> ([], Some x)
         | Inr opened \<Rightarrow>
             (case popup of
                WindowOpened \<Rightarrow> ([opened], None)
              | PopupBlocked clipboard \<Rightarrow> ([opened, AlertPopupBlocked fallback], None))))"

text \<open>
  \<^verbatim>\<open>performReverseSearch\<close>: the state once the promise has settled, and the effects,
  the alert of the \<^verbatim>\<open>catch\<close> block last.
\<close>

definition performReverseSearch ::
    "js_runtime \<Rightarrow> report_state \<Rightarrow> jsval option \<Rightarrow> jsval \<Rightarrow> engine \<Rightarrow> fetch_outcome
       \<Rightarrow> popup_outcome \<Rightarrow> report_state \<times> ui_effect list" where
  "performReverseSearch rt st results_now sessionId e outcome popup =
     (let st1 = st\<lparr>searchLoading := Some (engine_name e)\<rparr>;
          attempt = reverse_try rt results_now sessionId e outcome popup;
          effects = (case snd attempt of
                       None \<Rightarrow> fst attempt
                     | Some x \<Rightarrow> fst attempt @ [AlertFailed (engine_name e) x])
      in (st1\<lparr>searchLoading := None\<rparr>, effects))"

section \<open>The backend's reverse-search URL builder\<close>

text \<open>
  Modelled from the spec: the two errors of the builder (section 7) and the Session of the
  data model (section 3). The backend that declares them is not among the sources.
\<close>

datatype build_error = UnsupportedEngine | SessionExpiredOrInvalid

record session =
  session_id :: string
  image_id :: string
  created_at :: int
  expires_at :: int
  storage_location :: string

text \<open>
  Modelled from the spec: the engine table of the backend's URL builder, whose code is
  not among the sources. The spec fixes the keys, the enumerated set of engines, and
  leaves each engine's query format to the engine; the formats are the parameter
  \<open>template\<close>.
\<close>

definition engine_table :: "(engine \<Rightarrow> string \<Rightarrow> string) \<Rightarrow> (string \<times> (string \<Rightarrow> string)) list" where
  "engine_table template = map (\<lambda>e. (engine_name e, template e)) [Google, Bing, Yandex, Tineye]"

text \<open>
  Modelled from the spec: \<^verbatim>\<open>build(engine, image_id, session_id)\<close> of section 4.4, the
  backend's \<^verbatim>\<open>/reverse/{engine}\<close> handler, whose code is not among the sources. It
  validates the engine against the table, looks the session up by \<^verbatim>\<open>session_id\<close>, treats
  a mismatching \<^verbatim>\<open>image_id\<close> like a missing session, requires \<^verbatim>\<open>now < expires_at\<close>, and
  embeds the public address of the image (the deployment's base URL joined with the
  \<^verbatim>\<open>image_id\<close>) into the engine's template. It is a read: the store is returned as it was.
\<close>

definition build ::
    "(engine \<Rightarrow> string \<Rightarrow> string) \<Rightarrow> string \<Rightarrow> session list \<Rightarrow> int \<Rightarrow> string \<Rightarrow> string \<Rightarrow> string
       \<Rightarrow> session list \<times> (build_error + string)" where
  "build template base store now engine_str iid sid =
     (store,
      case map_of (engine_table template) engine_str of
        None \<Rightarrow> Inl UnsupportedEngine
      | Some tpl \<Rightarrow>
          (case find (\<lambda>s. session_id s = sid) store of
             None \<Rightarrow> Inl SessionExpiredOrInvalid
           | Some s \<Rightarrow>
               if image_id s = iid \<and> now < expires_at s
               then Inr (tpl (base @ ''/image/'' @ iid))
               else Inl SessionExpiredOrInvalid))"

section \<open>Vocabulary for the properties\<close>

subsection \<open>Shapes of values\<close>

fun is_object :: "jsval \<Rightarrow> bool" where
  "is_object (JObj kvs) = True"
| "is_object v = False"

fun is_number :: "jsval \<Rightarrow> bool" where
  "is_number (JNum r) = True"
| "is_number v = False"

fun is_boolean :: "jsval \<Rightarrow> bool" where
  "is_boolean (JBool b) = True"
| "is_boolean v = False"

fun is_array :: "jsval \<Rightarrow> bool" where
  "is_array (JArr xs) = True"
| "is_array v = False"

fun js_array_length :: "jsval \<Rightarrow> nat" where
  "js_array_length (JArr xs) = length xs"
| "js_array_length v = 0"

fun object_keys :: "jsval \<Rightarrow> string list" where
  "object_keys (JObj kvs) = map fst kvs"
| "object_keys v = []"

text \<open>
  A value that \<^verbatim>\<open>ToString\<close> and \<^verbatim>\<open>ToNumber\<close> convert without throwing: anything but
  an object with an own \<^verbatim>\<open>toString\<close> property, or an array that holds such a value.
\<close>

fun stringable :: "jsval \<Rightarrow> bool" where
  "stringable (JArr xs) = list_all (\<lambda>x. x = JUndefined \<or> x = JNull \<or> stringable x) xs"
| "stringable (JObj kvs) = (map_of kvs ''toString'' = None)"
| "stringable v = True"

text \<open>A number in the closed interval from 0 to 1.\<close>

fun in_unit :: "jsval \<Rightarrow> bool" where
  "in_unit (JNum x) = (0 \<le> x \<and> x \<le> 1)"
| "in_unit v = False"

subsection \<open>The entries of the reply\<close>

text \<open>
  What \<open>transformPythonResponse\<close> reads for the metadata, \<^verbatim>\<open>exifData\<close> and
  \<^verbatim>\<open>hasExifData\<close>, and for each analyzer slot: \<^verbatim>\<open>results.tamper_detection\<close>,
  \<^verbatim>\<open>results.ai_detection?.ai_detection\<close> and
  \<^verbatim>\<open>results.face_detection?.face_detection\<close>, where \<^verbatim>\<open>results\<close> is
  \<^verbatim>\<open>pythonData.results || {}\<close>.
\<close>

definition results_of :: "jsval \<Rightarrow> jsval" where
  "results_of d = js_or (get_prop d ''results'') (JObj [])"

definition exif_of :: "jsval \<Rightarrow> jsval" where
  "exif_of d = js_or (get_prop (results_of d) ''exif_data'') (JObj [])"

definition has_exif :: "jsval \<Rightarrow> bool" where
  "has_exif d = (has_keys (exif_of d) \<and> \<not> truthy (get_prop (exif_of d) ''error''))"

definition tamper_entry :: "jsval \<Rightarrow> jsval" where
  "tamper_entry d = get_prop (results_of d) ''tamper_detection''"

definition ai_entry :: "jsval \<Rightarrow> jsval" where
  "ai_entry d = opt (get_prop (results_of d) ''ai_detection'') ''ai_detection''"

definition faces_entry :: "jsval \<Rightarrow> jsval" where
  "faces_entry d = opt (get_prop (results_of d) ''face_detection'') ''face_detection''"

text \<open>
  The three analyzers by name, each with its entry, the function that builds its slot and
  the key of the slot in the report.
\<close>

datatype analyzer = Tamper | AiDetection | FaceDetection

fun entry_of :: "analyzer \<Rightarrow> jsval \<Rightarrow> jsval" where
  "entry_of Tamper d = tamper_entry d"
| "entry_of AiDetection d = ai_entry d"
| "entry_of FaceDetection d = faces_entry d"

fun slot_of :: "js_runtime \<Rightarrow> analyzer \<Rightarrow> jsval \<Rightarrow> js_exn + jsval" where
  "slot_of rt Tamper entry = tamper_slot rt entry"
| "slot_of rt AiDetection entry = aiAnalysis_slot rt entry"
| "slot_of rt FaceDetection entry = faceAnalysis_slot rt entry"

fun slot_key :: "analyzer \<Rightarrow> string" where
  "slot_key Tamper = ''tamper''"
| "slot_key AiDetection = ''aiAnalysis''"
| "slot_key FaceDetection = ''faceAnalysis''"

text \<open>
  When the report can be built. The analysis text of a score needs \<^verbatim>\<open>toFixed\<close> unless
  the entry carries an error, and \<^verbatim>\<open>toFixed\<close> exists on numbers only. The list of faces
  is mapped whatever else the entry holds, which needs an array with no \<^verbatim>\<open>null\<close> in it
  and, for the two subtractions, boxes whose corners convert to numbers; the text of the
  face analysis converts the count unless the entry carries an error. With EXIF data the
  width and the height go through \<^verbatim>\<open>parseInt\<close>, which converts them to text, and the
  image id is converted to text for the public address.
\<close>

definition score_renders :: "jsval \<Rightarrow> string \<Rightarrow> bool" where
  "score_renders entry score_key =
     (truthy (opt entry ''error'') \<or> is_number (js_or (opt entry score_key) (JNum 0)))"

definition face_maps :: "jsval \<Rightarrow> bool" where
  "face_maps face =
     (face \<noteq> JUndefined \<and> face \<noteq> JNull
      \<and> list_all (\<lambda>i. stringable (js_or (opt_index (get_prop face ''bounding_box'') i) (JNum 0)))
            [0, 1, 2, 3])"

definition faces_map :: "jsval \<Rightarrow> bool" where
  "faces_map entry =
     (case opt entry ''faces'' of
        JUndefined \<Rightarrow> True
      | JNull \<Rightarrow> True
      | JArr xs \<Rightarrow> list_all face_maps xs
      | _ \<Rightarrow> False)"

definition faces_render :: "jsval \<Rightarrow> bool" where
  "faces_render entry =
     (faces_map entry
      \<and> (truthy (opt entry ''error'') \<or> stringable (js_or (opt entry ''count'') (JNum 0))))"

definition dimensions_render :: "jsval \<Rightarrow> bool" where
  "dimensions_render d =
     (if has_exif d
      then stringable (js_or (js_or (get_prop (exif_of d) ''EXIF ExifImageWidth'')
                                (get_prop (exif_of d) ''Image ImageWidth'')) (JStr ''0''))
           \<and> stringable (js_or (js_or (get_prop (exif_of d) ''EXIF ExifImageLength'')
                                  (get_prop (exif_of d) ''Image ImageLength'')) (JStr ''0''))
      else True)"

text \<open>The parts of the reply outside the three analyzer entries.\<close>

definition frame_renders :: "jsval \<Rightarrow> bool" where
  "frame_renders d =
     (d \<noteq> JUndefined \<and> d \<noteq> JNull \<and> dimensions_render d \<and> stringable (get_prop d ''image_id''))"

definition reply_renders :: "jsval \<Rightarrow> bool" where
  "reply_renders d =
     (frame_renders d
      \<and> score_renders (tamper_entry d) ''integrity_score''
      \<and> score_renders (ai_entry d) ''confidence_score''
      \<and> faces_render (faces_entry d))"

text \<open>When the slot of one analyzer can be built from its entry.\<close>

fun slot_renders :: "analyzer \<Rightarrow> jsval \<Rightarrow> bool" where
  "slot_renders Tamper entry = score_renders entry ''integrity_score''"
| "slot_renders AiDetection entry = score_renders entry ''confidence_score''"
| "slot_renders FaceDetection entry = faces_render entry"

text \<open>
  An entry that reports a failure: it carries a truthy \<^verbatim>\<open>error\<close>. For the face analyzer
  its list of faces, if there is one, must still be fit for mapping.
\<close>

fun failure_entry :: "analyzer \<Rightarrow> jsval \<Rightarrow> bool" where
  "failure_entry Tamper entry = truthy (opt entry ''error'')"
| "failure_entry AiDetection entry = truthy (opt entry ''error'')"
| "failure_entry FaceDetection entry = (truthy (opt entry ''error'') \<and> faces_map entry)"

text \<open>
  The metadata slot of a reply without usable EXIF data: \<^verbatim>\<open>No EXIF data\<close> in every
  field of the camera, the two texts that the reply carries beside the EXIF data, and no
  dimensions.
\<close>

definition metadata_without_exif :: "jsval \<Rightarrow> jsval \<Rightarrow> jsval" where
  "metadata_without_exif exifMessage exifSuggestion =
     JObj [
       (''camera'', JStr ''No EXIF data''),
       (''lens'', JStr ''No EXIF data''),
       (''settings'', JObj [
          (''iso'', JStr ''No EXIF data''),
          (''aperture'', JStr ''No EXIF data''),
          (''shutterSpeed'', JStr ''No EXIF data''),
          (''focalLength'', JStr ''No EXIF data'')]),
       (''timestamp'', JStr ''No EXIF data''),
       (''software'', JStr ''No EXIF data''),
       (''orientation'', JStr ''No EXIF data''),
       (''resolution'', JObj [(''x'', JStr ''No EXIF data''), (''y'', JStr ''No EXIF data'')]),
       (''message'', exifMessage),
       (''suggestion'', exifSuggestion),
       (''dimensions'', JObj [(''width'', JNum 0), (''height'', JNum 0)])]"

text \<open>A field of a slot of the report, \<^verbatim>\<open>undefined\<close> when there is no report.\<close>

definition report_field :: "js_exn + jsval \<Rightarrow> string \<Rightarrow> string \<Rightarrow> jsval" where
  "report_field outcome slot field =
     (case outcome of Inr r \<Rightarrow> get_prop (get_prop r slot) field | Inl x \<Rightarrow> JUndefined)"

text \<open>A slot of the report, \<^verbatim>\<open>undefined\<close> when there is no report.\<close>

definition report_slot :: "js_exn + jsval \<Rightarrow> string \<Rightarrow> jsval" where
  "report_slot outcome slot = (case outcome of Inr r \<Rightarrow> get_prop r slot | Inl x \<Rightarrow> JUndefined)"

subsection \<open>Requests, sessions and URLs\<close>

text \<open>A request that failed outright: \<^verbatim>\<open>fetch\<close> rejected, or the response is not OK.\<close>

fun request_failed :: "fetch_outcome \<Rightarrow> bool" where
  "request_failed FetchRejected = True"
| "request_failed (Response ok status statusText body) = (\<not> ok)"


text \<open>
  The spec's live session: the store holds a session under the \<^verbatim>\<open>session_id\<close>, the
  session is the image's, and \<^verbatim>\<open>now < expires_at\<close>.
\<close>

definition live_session :: "session list \<Rightarrow> int \<Rightarrow> string \<Rightarrow> string \<Rightarrow> bool" where
  "live_session store now iid sid =
     (case find (\<lambda>s. session_id s = sid) store of
        None \<Rightarrow> False
      | Some s \<Rightarrow> image_id s = iid \<and> now < expires_at s)"

subsection \<open>Decimal numerals\<close>

text \<open>
  The number a text denotes in decimal: digits only, at least one, and no leading zero
  except in \<^verbatim>\<open>0\<close> itself.
\<close>

definition digit_value :: "char \<Rightarrow> nat option" where
  "digit_value c = map_of (zip ''0123456789'' [0, 1, 2, 3, 4, 5, 6, 7, 8, 9]) c"

fun digits_value :: "nat \<Rightarrow> string \<Rightarrow> nat option" where
  "digits_value acc [] = Some acc"
| "digits_value acc (c # cs) =
     (case digit_value c of None \<Rightarrow> None | Some d \<Rightarrow> digits_value (10 * acc + d) cs)"

definition read_decimal :: "string \<Rightarrow> nat option" where
  "read_decimal s =
     (if s = [] \<or> (1 < length s \<and> hd s = CHR ''0'') then None else digits_value 0 s)"

section \<open>Worked examples\<close>

subsection \<open>A runtime\<close>

text \<open>
  The examples below need one concrete runtime. Its \<^verbatim>\<open>toFixed\<close> rounds the exact value
  half up, and its number printer writes integers in decimal; these agree with the
  browser on the values the examples use. Its string parsers read plain decimal digits
  and answer \<^verbatim>\<open>NaN\<close> on everything else.
\<close>

definition example_to_fixed :: "nat \<Rightarrow> real \<Rightarrow> string" where
  "example_to_fixed d r =
     (let n = nat \<lfloor>\<bar>r\<bar> * 10 ^ d + 1 / 2\<rfloor>;
          s = show_nat n;
          padded = replicate (Suc d - length s) (CHR ''0'') @ s;
          whole = take (length padded - d) padded;
          frac = drop (length padded - d) padded
      in (if r < 0 then ''-'' else []) @ whole @ (if d = 0 then [] else ''.'' @ frac))"

definition example_number_to_string :: "real \<Rightarrow> string" where
  "example_number_to_string r =
     (if r < 0 then ''-'' @ show_nat (nat \<lfloor>- r\<rfloor>) else show_nat (nat \<lfloor>r\<rfloor>))"

definition example_parse :: "string \<Rightarrow> jsval" where
  "example_parse s =
     (if s \<noteq> [] \<and> list_all (\<lambda>c. digit_value c \<noteq> None) s
      then JNum (real (foldl (\<lambda>acc c. 10 * acc + the (digit_value c)) 0 s))
      else JNaN)"

definition example_runtime :: js_runtime where
  "example_runtime =
     \<lparr> window_location = Some (''localhost'', ''http://localhost:5173''),
       date_now = 1700000000000,
       number_to_string = example_number_to_string,
       to_fixed = example_to_fixed,
       string_to_number = example_parse,
       parse_int = example_parse \<rparr>"

definition example_file :: js_file where
  "example_file = \<lparr> file_name = ''photo.jpg'', file_size = 2097152, file_type = ''image/jpeg'' \<rparr>"

subsection \<open>Files and initial states\<close>

definition example_pdf :: js_file where
  "example_pdf = \<lparr> file_name = ''notes.pdf'', file_size = 4096, file_type = ''application/pdf'' \<rparr>"

definition example_oversize :: js_file where
  "example_oversize =
     \<lparr> file_name = ''scan.png'', file_size = 10485761, file_type = ''image/png'' \<rparr>"

definition example_empty_image :: js_file where
  "example_empty_image = \<lparr> file_name = ''empty.png'', file_size = 0, file_type = ''image/png'' \<rparr>"

definition initial_upload_state :: upload_state where
  "initial_upload_state = \<lparr> dragActive = False, error = None \<rparr>"

definition initial_hook_state :: hook_state where
  "initial_hook_state =
     \<lparr> isAnalyzing = False, results = None, uploadedImage = None, sessionIdRef = JNull \<rparr>"


subsection \<open>Replies of the backend\<close>

text \<open>All three analyzers failed, and the EXIF reader too.\<close>

definition reply_all_failed :: jsval where
  "reply_all_failed =
     JObj [(''image_id'', JStr ''img-1''), (''session_id'', JStr ''sess-123456''),
       (''results'', JObj [
          (''exif_data'', JObj [(''error'', JStr ''no EXIF reader'')]),
          (''tamper_detection'', JObj [(''error'', JStr ''model not loaded'')]),
          (''ai_detection'', JObj [(''ai_detection'', JObj [(''error'', JStr ''inference failed'')])]),
          (''face_detection'',
             JObj [(''face_detection'', JObj [(''error'', JStr ''detector timed out'')])])])]"

text \<open>The tamper analyzer failed; the other two succeeded.\<close>

definition reply_tamper_failed :: jsval where
  "reply_tamper_failed =
     JObj [(''image_id'', JStr ''img-2''), (''session_id'', JStr ''sess-234567''),
       (''results'', JObj [
          (''tamper_detection'', JObj [(''error'', JStr ''model not loaded'')]),
          (''ai_detection'',
             JObj [(''ai_detection'',
                JObj [(''is_ai_generated'', JBool True), (''confidence_score'', JNum 0.75)])]),
          (''face_detection'',
             JObj [(''face_detection'',
                JObj [(''count'', JNum 1),
                      (''faces'', JArr [JObj [(''confidence'', JNum 0.5)]])])])])]"

text \<open>An integrity score sent as text, with no error beside it.\<close>

definition reply_text_score :: jsval where
  "reply_text_score =
     JObj [(''results'', JObj [(''tamper_detection'', JObj [(''integrity_score'', JStr ''0.91'')])])]"

text \<open>
  Nothing but an image id that is an object with an own \<^verbatim>\<open>toString\<close> property:
  \<^verbatim>\<open>{"image_id": {"toString": 1}}\<close>.
\<close>

definition reply_image_id_object :: jsval where
  "reply_image_id_object = JObj [(''image_id'', JObj [(''toString'', JNum 1)])]"

text \<open>A face entry with an error beside a list of faces that holds \<^verbatim>\<open>null\<close>.\<close>

definition reply_face_error_null_face :: jsval where
  "reply_face_error_null_face =
     JObj [(''image_id'', JStr ''img-3''),
       (''results'', JObj [
          (''face_detection'',
             JObj [(''face_detection'',
                JObj [(''error'', JStr ''detector failed''), (''faces'', JArr [JNull])])])])]"

text \<open>The EXIF reader failed; nothing else is in the reply.\<close>

definition reply_exif_error :: jsval where
  "reply_exif_error =
     JObj [(''image_id'', JStr ''img-4''),
       (''results'', JObj [(''exif_data'', JObj [(''error'', JStr ''no EXIF reader'')])])]"

text \<open>Two faces counted and none listed.\<close>

definition reply_zero_faces_counted :: jsval where
  "reply_zero_faces_counted =
     JObj [(''results'', JObj [
        (''face_detection'',
           JObj [(''face_detection'', JObj [(''count'', JNum 2), (''faces'', JArr [])])])])]"

text \<open>An integrity score of 5.\<close>

definition reply_score_five :: jsval where
  "reply_score_five =
     JObj [(''results'', JObj [(''tamper_detection'', JObj [(''integrity_score'', JNum 5)])])]"

subsection \<open>A session store and engine templates for the builder\<close>

fun example_template :: "engine \<Rightarrow> string \<Rightarrow> string" where
  "example_template Google u = ''https://lens.google.com/uploadbyurl?url='' @ u"
| "example_template Bing u = ''https://www.bing.com/images/search?q=imgurl:'' @ u"
| "example_template Yandex u = ''https://yandex.com/images/search?rpt=imageview&url='' @ u"
| "example_template Tineye u = ''https://tineye.com/search?url='' @ u"

definition example_store :: "session list" where
  "example_store =
     [\<lparr> session_id = ''sess-234567'', image_id = ''img-2'', created_at = 1700000000000,
        expires_at = 1700003600000, storage_location = ''uploads/img-2'' \<rparr>]"


section \<open>Conversions\<close>

lemma nullish_iff: "nullish v \<longleftrightarrow> v = JUndefined \<or> v = JNull"
  by (cases v) simp_all

lemma and_then_simps [simp]:
  "and_then (Inr v) f = f v"
  "and_then (Inl x) f = Inl x"
  by (simp_all add: and_then_def)

lemma and_then_Inr_iff: "and_then m f = Inr y \<longleftrightarrow> (\<exists>v. m = Inr v \<and> f v = Inr y)"
  by (cases m) simp_all

lemma and_then_Inl_iff:
  "and_then m f = Inl x \<longleftrightarrow> m = Inl x \<or> (\<exists>v. m = Inr v \<and> f v = Inl x)"
  by (cases m) simp_all

lemma to_string_returns_both:
  "(\<exists>s. to_string rt v = Inr s) \<longleftrightarrow> stringable v"
  "(\<exists>ss. to_strings rt vs = Inr ss)
     \<longleftrightarrow> list_all (\<lambda>x. x = JUndefined \<or> x = JNull \<or> stringable x) vs"
  by (induction rt v and rt vs rule: to_string_to_strings.induct)
    (auto split: sum.splits)

lemmas to_string_returns = to_string_returns_both(1)

lemma to_string_throws_both:
  "to_string rt v = Inl x \<Longrightarrow> x = TypeError"
  "to_strings rt vs = Inl x \<Longrightarrow> x = TypeError"
  by (induction rt v and rt vs rule: to_string_to_strings.induct)
    (auto split: sum.splits if_splits)

lemmas to_string_throws = to_string_throws_both(1)

lemma to_number_returns: "(\<exists>n. to_number rt v = Inr n) \<longleftrightarrow> stringable v"
  using to_string_returns [of rt v]
  by (cases v) (auto simp: and_then_Inr_iff simp del: to_string.simps)

lemma to_number_throws: "to_number rt v = Inl x \<Longrightarrow> x = TypeError"
  by (cases v) (auto simp: and_then_Inl_iff simp del: to_string.simps dest: to_string_throws)

lemma js_sub_returns: "(\<exists>n. js_sub rt a b = Inr n) \<longleftrightarrow> stringable a \<and> stringable b"
  using to_number_returns [of rt a] to_number_returns [of rt b]
  by (auto simp: js_sub_def and_then_Inr_iff)

lemma js_sub_throws: "js_sub rt a b = Inl x \<Longrightarrow> x = TypeError"
  by (auto simp: js_sub_def and_then_Inl_iff dest: to_number_throws)

lemma parseInt_returns: "(\<exists>n. parseInt rt v = Inr n) \<longleftrightarrow> stringable v"
  using to_string_returns [of rt v] by (auto simp: parseInt_def and_then_Inr_iff)

lemma parseInt_throws: "parseInt rt v = Inl x \<Longrightarrow> x = TypeError"
  by (auto simp: parseInt_def and_then_Inl_iff dest: to_string_throws)
section \<open>The analyzer slots\<close>

lemma call_toFixed_cases:
  "call_toFixed rt v n = (if is_number v then Inr (to_fixed rt n (case v of JNum r \<Rightarrow> r)) else if v = JNaN then Inr ''NaN'' else Inl TypeError)"
  by (cases v) simp_all

lemma js_or_zero_not_NaN: "js_or v (JNum 0) \<noteq> JNaN"
  by (cases v) (simp_all add: js_or_def)

lemma tamper_slot_returns:
  "(\<exists>t. tamper_slot rt e = Inr t) \<longleftrightarrow> score_renders e ''integrity_score''"
  by (auto simp: tamper_slot_def score_renders_def Let_def call_toFixed_cases js_or_zero_not_NaN split: sum.splits if_splits)

lemma tamper_slot_throws:
  "tamper_slot rt e = Inl x \<Longrightarrow> x = TypeError"
  by (auto simp: tamper_slot_def  Let_def call_toFixed_cases js_or_zero_not_NaN split: sum.splits if_splits)

lemma tamper_slot_fields:
  assumes "tamper_slot rt e = Inr t"
  shows "is_object t"
    and "object_keys t = [''confidence'', ''compressionArtifacts'', ''doubleJpeg'', ''analysis'']"
    and "get_prop t ''confidence'' = js_or (opt e ''integrity_score'') (JNum 0)"
    and "truthy (opt e ''error'') \<Longrightarrow> get_prop t ''analysis'' = opt e ''error''"
  using assms
  by (auto simp: tamper_slot_def Let_def split: sum.splits if_splits)

lemma aiAnalysis_slot_returns:
  "(\<exists>t. aiAnalysis_slot rt e = Inr t) \<longleftrightarrow> score_renders e ''confidence_score''"
  by (auto simp: aiAnalysis_slot_def score_renders_def Let_def call_toFixed_cases js_or_zero_not_NaN split: sum.splits if_splits)

lemma aiAnalysis_slot_throws:
  "aiAnalysis_slot rt e = Inl x \<Longrightarrow> x = TypeError"
  by (auto simp: aiAnalysis_slot_def  Let_def call_toFixed_cases js_or_zero_not_NaN split: sum.splits if_splits)

lemma aiAnalysis_slot_fields:
  assumes "aiAnalysis_slot rt e = Inr t"
  shows "is_object t"
    and "object_keys t = [''confidence'', ''isAiGenerated'', ''indicators'', ''analysis'']"
    and "get_prop t ''confidence'' = js_or (opt e ''confidence_score'') (JNum 0)"
    and "get_prop t ''isAiGenerated'' = js_or (opt e ''is_ai_generated'') (JBool False)"
    and "truthy (opt e ''error'') \<Longrightarrow> get_prop t ''analysis'' = opt e ''error''"
  using assms
  by (auto simp: aiAnalysis_slot_def Let_def split: sum.splits if_splits)

lemma face_callback_returns:
  "(\<exists>y. face_callback rt i x = Inr y) \<longleftrightarrow> face_maps x"
  using js_sub_returns [of rt "js_or (opt_index (get_prop x ''bounding_box'') 2) (JNum 0)"
      "js_or (opt_index (get_prop x ''bounding_box'') 0) (JNum 0)"]
    js_sub_returns [of rt "js_or (opt_index (get_prop x ''bounding_box'') 3) (JNum 0)"
      "js_or (opt_index (get_prop x ''bounding_box'') 1) (JNum 0)"]
  by (auto simp: face_callback_def face_maps_def Let_def nullish_iff and_then_Inr_iff)

lemma face_callback_throws: "face_callback rt i x = Inl e \<Longrightarrow> e = TypeError"
  by (auto simp: face_callback_def Let_def and_then_Inl_iff split: if_splits dest: js_sub_throws)

lemma map_faces_returns:
  "(\<exists>ys. map_faces rt i xs = Inr ys) \<longleftrightarrow> list_all face_maps xs"
proof (induction xs arbitrary: i)
  case Nil
  show ?case by simp
next
  case (Cons x xs)
  show ?case
    using Cons.IH [of "Suc i"] face_callback_returns [of rt i x]
    by (auto split: sum.splits)
qed

lemma map_faces_throws: "map_faces rt i xs = Inl e \<Longrightarrow> e = TypeError"
  by (induction xs arbitrary: i) (auto split: sum.splits dest: face_callback_throws)

lemma map_faces_length: "map_faces rt i xs = Inr ys \<Longrightarrow> length ys = length xs"
  by (induction xs arbitrary: i ys) (auto split: sum.splits)

text \<open>The two steps of the face slot: the mapped list, then the text of the analysis.\<close>

lemma faces_step_returns:
  "(\<exists>m. (if nullish (opt e ''faces'') then Inr (JArr [])
         else case opt e ''faces'' of
                JArr xs \<Rightarrow>
                  (case map_faces rt 0 xs of Inl x \<Rightarrow> Inl x | Inr ys \<Rightarrow> Inr (JArr ys))
              | _ \<Rightarrow> Inl TypeError) = Inr m)
     \<longleftrightarrow> faces_map e"
proof (cases "opt e ''faces''")
  case (JArr xs)
  show ?thesis
  proof (cases "map_faces rt 0 xs")
    case (Inl x)
    with map_faces_returns [of rt 0 xs] JArr show ?thesis
      by (simp add: faces_map_def)
  next
    case (Inr ys)
    with map_faces_returns [of rt 0 xs] JArr show ?thesis
      by (simp add: faces_map_def)
  qed
qed (simp_all add: faces_map_def)

lemma analysis_step_returns:
  "(\<exists>a. (if truthy err then Inr err
         else and_then (to_string rt cnt)
                (\<lambda>s. Inr (JStr (''Face detection completed. Found '' @ s @ '' face(s).'')))) = Inr a)
     \<longleftrightarrow> truthy err \<or> stringable cnt"
  using to_string_returns [of rt cnt] by (auto simp: and_then_Inr_iff)

lemma faceAnalysis_slot_returns:
  "(\<exists>t. faceAnalysis_slot rt e = Inr t) \<longleftrightarrow> faces_render e"
  unfolding faceAnalysis_slot_def Let_def faces_render_def and_then_Inr_iff
  using faces_step_returns [of e rt]
    analysis_step_returns [of "opt e ''error''" rt "js_or (opt e ''count'') (JNum 0)"]
  by blast

lemma faceAnalysis_slot_throws:
  "faceAnalysis_slot rt e = Inl x \<Longrightarrow> x = TypeError"
  by (auto simp: faceAnalysis_slot_def Let_def and_then_Inl_iff
        split: sum.splits if_splits jsval.splits
        dest: map_faces_throws to_string_throws)

lemma faceAnalysis_slot_fields:
  assumes "faceAnalysis_slot rt e = Inr t"
  shows "is_object t"
    and "object_keys t = [''count'', ''faces'', ''analysis'']"
    and "get_prop t ''count'' = js_or (opt e ''count'') (JNum 0)"
    and "\<exists>ys. get_prop t ''faces'' = JArr ys
           \<and> length ys = (case opt e ''faces'' of JArr xs \<Rightarrow> length xs | _ \<Rightarrow> 0)"
    and "truthy (opt e ''error'') \<Longrightarrow> get_prop t ''analysis'' = opt e ''error''"
  using assms
  by (auto simp: faceAnalysis_slot_def Let_def nullish_iff and_then_Inr_iff
        split: sum.splits if_splits jsval.splits dest: map_faces_length)

text \<open>
  The list of faces is mapped whether or not the entry carries an error, so an error next
  to a malformed list still throws.
\<close>

lemma face_error_with_null_face_throws:
  "faceAnalysis_slot rt (JObj [(''error'', JStr ''detector failed''), (''faces'', JArr [JNull])])
     = Inl TypeError"
  by (simp add: faceAnalysis_slot_def opt_def face_callback_def)

lemma failure_entry_slot:
  assumes "failure_entry a e"
  shows "\<exists>s. slot_of rt a e = Inr s \<and> get_prop s ''analysis'' = opt e ''error''"
proof (cases a)
  case Tamper
  with assms have "score_renders e ''integrity_score''"
    by (simp add: score_renders_def)
  then obtain s where "tamper_slot rt e = Inr s"
    using tamper_slot_returns [of rt e] by blast
  with assms Tamper show ?thesis
    using tamper_slot_fields(4) [of rt e s] by simp
next
  case AiDetection
  with assms have "score_renders e ''confidence_score''"
    by (simp add: score_renders_def)
  then obtain s where "aiAnalysis_slot rt e = Inr s"
    using aiAnalysis_slot_returns [of rt e] by blast
  with assms AiDetection show ?thesis
    using aiAnalysis_slot_fields(5) [of rt e s] by simp
next
  case FaceDetection
  with assms have "faces_render e"
    by (simp add: faces_render_def)
  then obtain s where "faceAnalysis_slot rt e = Inr s"
    using faceAnalysis_slot_returns [of rt e] by blast
  with assms FaceDetection show ?thesis
    using faceAnalysis_slot_fields(5) [of rt e s] by simp
qed

text \<open>The dimensions, the metadata and the file information.\<close>

lemma exif_dimension_returns:
  "(\<exists>n. exif_dimension rt h e k1 k2 = Inr n)
     \<longleftrightarrow> (if h then stringable (js_or (js_or (get_prop e k1) (get_prop e k2)) (JStr ''0''))
          else True)"
  using parseInt_returns [of rt "js_or (js_or (get_prop e k1) (get_prop e k2)) (JStr ''0'')"]
  by (simp add: exif_dimension_def)

lemma exif_dimension_throws: "exif_dimension rt h e k1 k2 = Inl x \<Longrightarrow> x = TypeError"
  by (auto simp: exif_dimension_def split: if_splits dest: parseInt_throws)

lemma exif_dimension_without [simp]: "exif_dimension rt False e k1 k2 = Inr (JNum 0)"
  by (simp add: exif_dimension_def)

lemma metadata_slot_returns:
  "(\<exists>m. metadata_slot rt h e msg sug = Inr m)
     \<longleftrightarrow> (\<exists>w. exif_dimension rt h e ''EXIF ExifImageWidth'' ''Image ImageWidth'' = Inr w)
        \<and> (\<exists>l. exif_dimension rt h e ''EXIF ExifImageLength'' ''Image ImageLength'' = Inr l)"
  by (auto simp: metadata_slot_def Let_def and_then_Inr_iff)

lemma metadata_slot_throws: "metadata_slot rt h e msg sug = Inl x \<Longrightarrow> x = TypeError"
  by (auto simp: metadata_slot_def Let_def and_then_Inl_iff dest: exif_dimension_throws)

lemma metadata_slot_object: "metadata_slot rt h e msg sug = Inr m \<Longrightarrow> is_object m"
  by (auto simp: metadata_slot_def Let_def and_then_Inr_iff)

lemma metadata_slot_without_exif:
  "metadata_slot rt False e msg sug = Inr (metadata_without_exif msg sug)"
  by (simp add: metadata_slot_def metadata_without_exif_def Let_def)

lemma fileInfo_slot_returns:
  "(\<exists>m. fileInfo_slot rt h e d f = Inr m)
     \<longleftrightarrow> (\<exists>w. exif_dimension rt h e ''EXIF ExifImageWidth'' ''Image ImageWidth'' = Inr w)
        \<and> (\<exists>l. exif_dimension rt h e ''EXIF ExifImageLength'' ''Image ImageLength'' = Inr l)"
  by (auto simp: fileInfo_slot_def Let_def and_then_Inr_iff)

lemma fileInfo_slot_throws: "fileInfo_slot rt h e d f = Inl x \<Longrightarrow> x = TypeError"
  by (auto simp: fileInfo_slot_def Let_def and_then_Inl_iff dest: exif_dimension_throws)

lemma fileInfo_slot_object: "fileInfo_slot rt h e d f = Inr m \<Longrightarrow> is_object m"
  by (auto simp: fileInfo_slot_def Let_def and_then_Inr_iff)

section \<open>The report\<close>

lemma transformPythonResponse_unfold:
  "transformPythonResponse rt ref d f =
     (if nullish d then Inl TypeError
      else
        and_then (metadata_slot rt (has_exif d) (exif_of d) (get_prop (results_of d) ''message'')
                    (get_prop (results_of d) ''suggestion''))
          (\<lambda>metadata.
        and_then (tamper_slot rt (tamper_entry d))
          (\<lambda>tamper.
        and_then (aiAnalysis_slot rt (ai_entry d))
          (\<lambda>aiAnalysis.
        and_then (faceAnalysis_slot rt (faces_entry d))
          (\<lambda>faceAnalysis.
        and_then (fileInfo_slot rt (has_exif d) (exif_of d) d f)
          (\<lambda>fileInfo.
        and_then (to_string rt (get_prop d ''image_id''))
          (\<lambda>image_id_text.
        Inr (JObj [
          (''metadata'', metadata),
          (''tamper'', tamper),
          (''aiAnalysis'', aiAnalysis),
          (''faceAnalysis'', faceAnalysis),
          (''fileInfo'', fileInfo),
          (''imageId'', js_or (get_prop d ''image_id'') (JStr ''unknown'')),
          (''publicImageUrl'', JStr (getApiBaseUrl rt @ ''/image/'' @ image_id_text)),
          (''sessionId'', js_or (get_prop d ''session_id'') ref),
          (''expiresAt'', JNum (real_of_int (date_now rt) + 60 * 60 * 1000))]))))))))"
  unfolding transformPythonResponse_def Let_def results_of_def tamper_entry_def ai_entry_def
    faces_entry_def exif_of_def has_exif_def
  by (rule refl)

lemma transformPythonResponse_Inr:
  assumes "transformPythonResponse rt ref d f = Inr r"
  obtains m t a fa fi id_text where
    "d \<noteq> JUndefined" and "d \<noteq> JNull"
    and "metadata_slot rt (has_exif d) (exif_of d) (get_prop (results_of d) ''message'')
           (get_prop (results_of d) ''suggestion'') = Inr m"
    and "tamper_slot rt (tamper_entry d) = Inr t"
    and "aiAnalysis_slot rt (ai_entry d) = Inr a"
    and "faceAnalysis_slot rt (faces_entry d) = Inr fa"
    and "fileInfo_slot rt (has_exif d) (exif_of d) d f = Inr fi"
    and "to_string rt (get_prop d ''image_id'') = Inr id_text"
    and "get_prop r ''metadata'' = m"
    and "get_prop r ''tamper'' = t"
    and "get_prop r ''aiAnalysis'' = a"
    and "get_prop r ''faceAnalysis'' = fa"
    and "get_prop r ''fileInfo'' = fi"
    and "object_keys r = [''metadata'', ''tamper'', ''aiAnalysis'', ''faceAnalysis'', ''fileInfo'',
           ''imageId'', ''publicImageUrl'', ''sessionId'', ''expiresAt'']"
    and "get_prop r ''expiresAt'' = JNum (real_of_int (date_now rt) + 3600000)"
    and "get_prop r ''publicImageUrl'' = JStr (getApiBaseUrl rt @ ''/image/'' @ id_text)"
  using assms
  by (auto simp: transformPythonResponse_unfold nullish_iff and_then_Inr_iff split: if_splits)

lemma transformPythonResponse_returns_if:
  assumes "d \<noteq> JUndefined" and "d \<noteq> JNull"
    and "metadata_slot rt (has_exif d) (exif_of d) (get_prop (results_of d) ''message'')
           (get_prop (results_of d) ''suggestion'') = Inr m"
    and "tamper_slot rt (tamper_entry d) = Inr t"
    and "aiAnalysis_slot rt (ai_entry d) = Inr a"
    and "faceAnalysis_slot rt (faces_entry d) = Inr fa"
    and "fileInfo_slot rt (has_exif d) (exif_of d) d f = Inr fi"
    and "to_string rt (get_prop d ''image_id'') = Inr id_text"
  shows "\<exists>r. transformPythonResponse rt ref d f = Inr r"
  using assms by (simp add: transformPythonResponse_unfold nullish_iff)

lemma transformPythonResponse_throws:
  "transformPythonResponse rt ref d f = Inl x \<Longrightarrow> x = TypeError"
  by (auto simp: transformPythonResponse_unfold and_then_Inl_iff split: if_splits
        dest: metadata_slot_throws tamper_slot_throws aiAnalysis_slot_throws
          faceAnalysis_slot_throws fileInfo_slot_throws to_string_throws)

lemma frame_slots_return:
  "frame_renders d \<longleftrightarrow>
     d \<noteq> JUndefined \<and> d \<noteq> JNull
     \<and> (\<exists>m. metadata_slot rt (has_exif d) (exif_of d) (get_prop (results_of d) ''message'')
               (get_prop (results_of d) ''suggestion'') = Inr m)
     \<and> (\<exists>fi. fileInfo_slot rt (has_exif d) (exif_of d) d f = Inr fi)
     \<and> (\<exists>id_text. to_string rt (get_prop d ''image_id'') = Inr id_text)"
  unfolding frame_renders_def dimensions_render_def metadata_slot_returns fileInfo_slot_returns
    exif_dimension_returns to_string_returns
  by auto

lemma transformPythonResponse_returns:
  "(\<exists>r. transformPythonResponse rt ref d f = Inr r) \<longleftrightarrow> reply_renders d"
proof
  assume "\<exists>r. transformPythonResponse rt ref d f = Inr r"
  then obtain r where "transformPythonResponse rt ref d f = Inr r" ..
  then show "reply_renders d"
    using tamper_slot_returns [of rt "tamper_entry d"]
      aiAnalysis_slot_returns [of rt "ai_entry d"]
      faceAnalysis_slot_returns [of rt "faces_entry d"]
      frame_slots_return [of d rt f]
    by (elim transformPythonResponse_Inr) (auto simp: reply_renders_def)
next
  assume "reply_renders d"
  then show "\<exists>r. transformPythonResponse rt ref d f = Inr r"
    using tamper_slot_returns [of rt "tamper_entry d"]
      aiAnalysis_slot_returns [of rt "ai_entry d"]
      faceAnalysis_slot_returns [of rt "faces_entry d"]
      frame_slots_return [of d rt f]
    by (auto simp: reply_renders_def intro: transformPythonResponse_returns_if)
qed

lemma transformPythonResponse_not_renders:
  assumes "\<not> reply_renders d"
  shows "transformPythonResponse rt ref d f = Inl TypeError"
proof (cases "transformPythonResponse rt ref d f")
  case (Inl x)
  then show ?thesis
    using transformPythonResponse_throws [of rt ref d f x] by simp
next
  case (Inr r)
  with assms show ?thesis
    using transformPythonResponse_returns [of rt ref d f] by blast
qed

lemma transformPythonResponse_slot_of:
  assumes "transformPythonResponse rt ref d f = Inr r"
  shows "slot_of rt b (entry_of b d) = Inr (get_prop r (slot_key b))"
  using assms by (elim transformPythonResponse_Inr) (cases b; simp)

lemma transformPythonResponse_metadata_without_exif:
  assumes "transformPythonResponse rt ref d f = Inr r" and "\<not> has_exif d"
  shows "get_prop r ''metadata''
           = metadata_without_exif (get_prop (results_of d) ''message'')
               (get_prop (results_of d) ''suggestion'')"
  using assms by (elim transformPythonResponse_Inr) (simp add: metadata_slot_without_exif)

text \<open>
  The AI and face slots read the entry nested one level down. An error placed directly
  under \<^verbatim>\<open>results.ai_detection\<close> is not the entry's error: the entry is \<^verbatim>\<open>undefined\<close>,
  and the slot reports a natural image.
\<close>

lemma ai_entry_outer_error_unread:
  "ai_entry (JObj [(''results'', JObj [(''ai_detection'', JObj [(''error'', JStr msg)])])])
     = JUndefined"
  by (simp add: ai_entry_def results_of_def js_or_def opt_def)

lemma aiAnalysis_slot_undefined_entry:
  assumes "aiAnalysis_slot rt JUndefined = Inr s"
  shows "get_prop s ''indicators'' = JArr [JStr ''Natural image detected'']"
  using assms
  by (auto simp: js_or_def opt_def aiAnalysis_slot_def split: sum.splits)

lemma report_field_Inr:
  "outcome = Inr r \<Longrightarrow> report_field outcome slot field = get_prop (get_prop r slot) field"
  by (simp add: report_field_def)

lemma report_slot_Inr: "outcome = Inr r \<Longrightarrow> report_slot outcome slot = get_prop r slot"
  by (simp add: report_slot_def)

lemma js_array_length_case:
  "js_array_length v = (case v of JArr xs \<Rightarrow> length xs | _ \<Rightarrow> 0)"
  by (cases v) simp_all

lemma faceAnalysis_reads:
  assumes "transformPythonResponse rt ref d f = Inr r"
  shows "get_prop (get_prop r ''faceAnalysis'') ''count''
           = js_or (opt (faces_entry d) ''count'') (JNum 0)"
    and "\<exists>ys. get_prop (get_prop r ''faceAnalysis'') ''faces'' = JArr ys
           \<and> length ys = js_array_length (opt (faces_entry d) ''faces'')"
proof -
  from assms obtain fa where fa: "faceAnalysis_slot rt (faces_entry d) = Inr fa"
    and r: "get_prop r ''faceAnalysis'' = fa"
    by (rule transformPythonResponse_Inr)
  show "get_prop (get_prop r ''faceAnalysis'') ''count''
          = js_or (opt (faces_entry d) ''count'') (JNum 0)"
    using faceAnalysis_slot_fields(3) [OF fa] r by simp
  show "\<exists>ys. get_prop (get_prop r ''faceAnalysis'') ''faces'' = JArr ys
          \<and> length ys = js_array_length (opt (faces_entry d) ''faces'')"
    using faceAnalysis_slot_fields(4) [OF fa] r by (simp add: js_array_length_case)
qed

lemma in_unit_js_or: "in_unit (js_or v (JNum 0)) \<longleftrightarrow> \<not> truthy v \<or> in_unit v"
  by (simp add: js_or_def)

lemma is_boolean_js_or: "is_boolean (js_or v (JBool False)) \<longleftrightarrow> \<not> truthy v \<or> is_boolean v"
  by (simp add: js_or_def)

lemma score_reads:
  assumes "transformPythonResponse rt ref d f = Inr r"
  shows "get_prop (get_prop r ''tamper'') ''confidence''
           = js_or (opt (tamper_entry d) ''integrity_score'') (JNum 0)"
    and "get_prop (get_prop r ''aiAnalysis'') ''confidence''
           = js_or (opt (ai_entry d) ''confidence_score'') (JNum 0)"
    and "get_prop (get_prop r ''aiAnalysis'') ''isAiGenerated''
           = js_or (opt (ai_entry d) ''is_ai_generated'') (JBool False)"
proof -
  from assms obtain t a where t: "tamper_slot rt (tamper_entry d) = Inr t"
    and a: "aiAnalysis_slot rt (ai_entry d) = Inr a"
    and r: "get_prop r ''tamper'' = t" "get_prop r ''aiAnalysis'' = a"
    by (rule transformPythonResponse_Inr)
  show "get_prop (get_prop r ''tamper'') ''confidence''
          = js_or (opt (tamper_entry d) ''integrity_score'') (JNum 0)"
    using tamper_slot_fields(3) [OF t] r by simp
  show "get_prop (get_prop r ''aiAnalysis'') ''confidence''
          = js_or (opt (ai_entry d) ''confidence_score'') (JNum 0)"
    using aiAnalysis_slot_fields(3) [OF a] r by simp
  show "get_prop (get_prop r ''aiAnalysis'') ''isAiGenerated''
          = js_or (opt (ai_entry d) ''is_ai_generated'') (JBool False)"
    using aiAnalysis_slot_fields(4) [OF a] r by simp
qed

section \<open>An analysis from request to state\<close>

lemma analyze_try_session:
  assumes "get_prop data ''session_id'' = JStr sid" and "sid \<noteq> []"
  shows "fst (analyze_try rt ref f (Response True status statusText (Some data))) = JStr sid"
proof -
  from assms(1) have "\<not> nullish data"
    by (cases data) simp_all
  with assms show ?thesis
    by (simp add: analyze_try_def)
qed

lemma analyzeImage_sessionIdRef:
  "sessionIdRef (fst (analyzeImage rt st f outcome)) = fst (analyze_try rt (sessionIdRef st) f outcome)"
  by (simp add: analyzeImage_def Let_def split: sum.splits)

lemma analyze_try_Inr:
  assumes "snd (analyze_try rt ref f outcome) = Inr r"
  shows "\<exists>status statusText data.
           outcome = Response True status statusText (Some data)
           \<and> transformPythonResponse rt (fst (analyze_try rt ref f outcome)) data f = Inr r"
  using assms
  by (cases outcome)
    (auto simp: analyze_try_def Let_def split: option.splits if_splits jsval.splits sum.splits)

lemma analyze_try_failed:
  "request_failed outcome \<Longrightarrow> \<exists>x. snd (analyze_try rt ref f outcome) = Inl x"
  by (cases outcome) (auto simp: analyze_try_def Let_def split: option.splits sum.splits)

lemma analyzeImage_outcome:
  "results (fst (analyzeImage rt st f outcome))
     = (case snd (analyze_try rt (sessionIdRef st) f outcome) of Inr r \<Rightarrow> Some r | Inl x \<Rightarrow> None)"
  "snd (analyzeImage rt st f outcome)
     = (case snd (analyze_try rt (sessionIdRef st) f outcome) of Inr r \<Rightarrow> None | Inl x \<Rightarrow> Some x)"
  "isAnalyzing (fst (analyzeImage rt st f outcome)) = False"
  "uploadedImage (fst (analyzeImage rt st f outcome)) = Some f"
  by (simp_all add: analyzeImage_def Let_def split: sum.splits)

section \<open>Upload validation\<close>

lemma validateFile_None_iff:
  "validateFile f = None \<longleftrightarrow> prefix ''image/'' (file_type f) \<and> file_size f \<le> 10 * 1024 * 1024"
  by (auto simp: validateFile_def)

lemma handleFiles_upload:
  "snd (handleFiles st files) = Some g \<longleftrightarrow>
     (\<exists>rest. files = Some (g # rest)) \<and> validateFile g = None"
  by (auto simp: handleFiles_def validateFile_def split: option.splits list.splits if_splits)

section \<open>The text of the expiry\<close>

lemma show_nat_digit: "n < 10 \<Longrightarrow> show_nat n = [digit_char n]"
  by (subst show_nat.simps) simp

lemma show_nat_step: "10 \<le> n \<Longrightarrow> show_nat n = show_nat (n div 10) @ [digit_char (n mod 10)]"
  by (subst show_nat.simps) simp

lemma show_nat_nonempty: "show_nat n \<noteq> []"
  by (subst show_nat.simps) simp

lemma digit_cases:
  assumes "n < (10::nat)"
  obtains "n = 0" | "n = 1" | "n = 2" | "n = 3" | "n = 4" | "n = 5" | "n = 6" | "n = 7"
    | "n = 8" | "n = 9"
  using assms by atomize_elim arith

lemma digit_char_zero: "n < 10 \<Longrightarrow> digit_char n = CHR ''0'' \<longleftrightarrow> n = 0"
  by (erule digit_cases) (simp_all add: digit_char_def)

lemma digit_value_digit_char: "n < 10 \<Longrightarrow> digit_value (digit_char n) = Some n"
  by (erule digit_cases) (simp_all add: digit_char_def digit_value_def)

lemma show_nat_zero: "show_nat n = ''0'' \<longleftrightarrow> n = 0"
proof (cases "n < 10")
  case True
  then show ?thesis
    by (simp add: show_nat_digit digit_char_zero)
next
  case False
  then have "show_nat n = show_nat (n div 10) @ [digit_char (n mod 10)]"
    by (simp add: show_nat_step)
  moreover have "show_nat (n div 10) \<noteq> []"
    by (rule show_nat_nonempty)
  ultimately have "length (show_nat n) \<noteq> 1"
    by (cases "show_nat (n div 10)") simp_all
  with False show ?thesis by auto
qed

lemma digits_value_append:
  "digits_value acc (xs @ ys)
     = (case digits_value acc xs of None \<Rightarrow> None | Some a \<Rightarrow> digits_value a ys)"
  by (induction xs arbitrary: acc) (simp_all split: option.splits)

lemma digits_value_show_nat: "digits_value 0 (show_nat n) = Some n"
proof (induction n rule: less_induct)
  case (less n)
  show ?case
  proof (cases "n < 10")
    case True
    then show ?thesis
      by (simp add: show_nat_digit digit_value_digit_char)
  next
    case False
    then have "digits_value 0 (show_nat (n div 10)) = Some (n div 10)"
      using less [of "n div 10"] by simp
    with False show ?thesis
      by (simp add: show_nat_step digits_value_append digit_value_digit_char)
  qed
qed

lemma hd_show_nat: "0 < n \<Longrightarrow> hd (show_nat n) \<noteq> CHR ''0''"
proof (induction n rule: less_induct)
  case (less n)
  show ?case
  proof (cases "n < 10")
    case True
    with less.prems show ?thesis
      by (simp add: show_nat_digit digit_char_zero)
  next
    case False
    then have "hd (show_nat (n div 10)) \<noteq> CHR ''0''"
      using less.IH [of "n div 10"] by simp
    with False show ?thesis
      by (simp add: show_nat_step show_nat_nonempty)
  qed
qed

lemma read_decimal_show_nat: "read_decimal (show_nat n) = Some n"
proof (cases "n = 0")
  case True
  then show ?thesis
    by (simp add: read_decimal_def show_nat_digit digit_char_def digit_value_def)
next
  case False
  then have "hd (show_nat n) \<noteq> CHR ''0''"
    by (simp add: hd_show_nat)
  then show ?thesis
    by (simp add: read_decimal_def show_nat_nonempty digits_value_show_nat)
qed

lemma remaining_not_Expired: "xs @ ''m remaining'' \<noteq> ''Expired''"
proof
  assume "xs @ ''m remaining'' = ''Expired''"
  then have "last (xs @ ''m remaining'') = last ''Expired''"
    by simp
  then show False by simp
qed

lemma formatExpiryTime_Expired:
  "formatExpiryTime rt expiresAt = ''Expired'' \<longleftrightarrow> expiresAt \<le> date_now rt"
proof (cases "expiresAt \<le> date_now rt")
  case True
  then show ?thesis by (simp add: formatExpiryTime_def)
next
  case False
  have "show_nat h @ ''h '' @ show_nat m @ ''m remaining'' \<noteq> ''Expired''" for h m
    using remaining_not_Expired [of "show_nat h @ ''h '' @ show_nat m"] by simp
  with False show ?thesis
    using remaining_not_Expired by (simp add: formatExpiryTime_def Let_def)
qed

lemma hours_form_longer: "show_nat h @ ''h '' @ show_nat m @ ''m remaining'' \<noteq> ''0m remaining''"
proof
  assume "show_nat h @ ''h '' @ show_nat m @ ''m remaining'' = ''0m remaining''"
  then have "length (show_nat h @ ''h '' @ show_nat m @ ''m remaining'') = length ''0m remaining''"
    by simp
  moreover have "length (show_nat h) \<noteq> 0" "length (show_nat m) \<noteq> 0"
    using show_nat_nonempty by simp_all
  ultimately show False by simp
qed

lemma formatExpiryTime_last_minute:
  "formatExpiryTime rt expiresAt = ''0m remaining''
     \<longleftrightarrow> date_now rt < expiresAt \<and> expiresAt < date_now rt + 60000"
proof (cases "expiresAt \<le> date_now rt")
  case True
  then show ?thesis by (simp add: formatExpiryTime_def)
next
  case False
  define minutes where "minutes = (expiresAt - date_now rt) div 60000"
  have nonneg: "0 \<le> minutes"
    using False by (simp add: minutes_def)
  have zero: "minutes = 0 \<longleftrightarrow> expiresAt < date_now rt + 60000"
    using False unfolding minutes_def by (auto simp: zdiv_eq_0_iff)
  show ?thesis
  proof (cases "minutes div 60 > 0")
    case True
    then have "minutes \<noteq> 0" by auto
    with True False zero show ?thesis
      using hours_form_longer by (simp add: formatExpiryTime_def Let_def minutes_def)
  next
    case hours: False
    have "show_nat (nat minutes) = ''0'' \<longleftrightarrow> minutes = 0"
      using nonneg by (simp add: show_nat_zero)
    with hours False zero show ?thesis
      by (simp add: formatExpiryTime_def Let_def minutes_def)
  qed
qed

lemma formatExpiryTime_fresh:
  "formatExpiryTime rt (date_now rt + 3600000) = ''1h 0m remaining''"
  by (simp add: formatExpiryTime_def show_nat_digit digit_char_def)

lemma formatExpiryTime_minutes:
  assumes "date_now rt < expiresAt"
  shows "formatExpiryTime rt expiresAt =
           (let minutes = nat ((expiresAt - date_now rt) div 60000)
            in if minutes < 60 then show_nat minutes @ ''m remaining''
               else show_nat (minutes div 60) @ ''h '' @ show_nat (minutes mod 60)
                    @ ''m remaining'')"
proof -
  define minutes where "minutes = (expiresAt - date_now rt) div 60000"
  have nonneg: "0 \<le> minutes"
    using assms by (simp add: minutes_def)
  have hours: "nat (minutes div 60) = nat minutes div 60"
    using nonneg by (simp add: nat_div_distrib)
  have rest: "nat (minutes mod 60) = nat minutes mod 60"
    using nonneg by (simp add: nat_mod_distrib)
  have small: "minutes div 60 > 0 \<longleftrightarrow> \<not> nat minutes < 60"
    using nonneg by (auto simp: zdiv_eq_0_iff not_less)
  have "formatExpiryTime rt expiresAt =
          (if minutes div 60 > 0
           then show_nat (nat (minutes div 60)) @ ''h '' @ show_nat (nat (minutes mod 60))
                @ ''m remaining''
           else show_nat (nat minutes) @ ''m remaining'')"
    using assms by (simp add: formatExpiryTime_def Let_def minutes_def)
  with hours rest small show ?thesis
    unfolding minutes_def Let_def by simp
qed

section \<open>The reverse search and the builder\<close>





















lemma performReverseSearch_state:
  "searchLoading (fst (performReverseSearch rt st res sid e outcome pb)) = None"
  "activeTab (fst (performReverseSearch rt st res sid e outcome pb)) = activeTab st"
  by (simp_all add: performReverseSearch_def Let_def)

lemma performReverseSearch_effects:
  "snd (performReverseSearch rt st' res sid e outcome pb)
     = snd (performReverseSearch rt st res sid e outcome pb)"
  by (simp add: performReverseSearch_def Let_def)

lemma engine_table_lookup:
  "map_of (engine_table template) (engine_name e) = Some (template e)"
  by (cases e) (simp_all add: engine_table_def)



lemma build_live:
  assumes "live_session store now iid sid"
  shows "snd (build template base store now (engine_name e) iid sid)
           = Inr (template e (base @ ''/image/'' @ iid))"
  using assms
  by (auto simp: build_def live_session_def engine_table_lookup split: option.splits)


lemma build_store: "fst (build template base store now name iid sid) = store"
  by (simp add: build_def)

lemma build_live_any_time:
  assumes "live_session store now iid sid" and "live_session store now' iid sid"
  shows "snd (build template base store now' name iid sid)
           = snd (build template base store now name iid sid)"
  using assms by (auto simp: build_def live_session_def split: option.splits)


section \<open>The slots by analyzer\<close>

lemma slot_of_returns: "(\<exists>s. slot_of rt b e = Inr s) \<longleftrightarrow> slot_renders b e"
  by (cases b)
    (simp_all add: tamper_slot_returns aiAnalysis_slot_returns faceAnalysis_slot_returns)

lemma reply_renders_slots:
  "reply_renders d \<longleftrightarrow> frame_renders d \<and> (\<forall>b. slot_renders b (entry_of b d))"
proof
  assume "reply_renders d"
  then have "frame_renders d" and "slot_renders b (entry_of b d)" for b
    by (cases b; simp add: reply_renders_def)+
  then show "frame_renders d \<and> (\<forall>b. slot_renders b (entry_of b d))"
    by blast
next
  assume slots: "frame_renders d \<and> (\<forall>b. slot_renders b (entry_of b d))"
  then have "slot_renders Tamper (entry_of Tamper d)"
    "slot_renders AiDetection (entry_of AiDetection d)"
    "slot_renders FaceDetection (entry_of FaceDetection d)"
    by blast+
  with slots show "reply_renders d"
    by (simp add: reply_renders_def)
qed

lemma failure_entry_renders: "failure_entry a e \<Longrightarrow> slot_renders a e"
  by (cases a) (simp_all add: score_renders_def faces_render_def)

lemma failure_entry_iff:
  "truthy (opt e ''error'') \<Longrightarrow> failure_entry a e \<longleftrightarrow> slot_renders a e"
  by (cases a) (simp_all add: score_renders_def faces_render_def)

lemma exif_error_no_exif: "truthy (get_prop (exif_of d) ''error'') \<Longrightarrow> \<not> has_exif d"
  by (simp add: has_exif_def)

section \<open>The worked examples, evaluated\<close>

lemma reply_all_failed_renders: "reply_renders reply_all_failed"
  by code_simp

lemma reply_all_failed_faces:
  "nullish (opt (faces_entry reply_all_failed) ''count'')"
  "nullish (opt (faces_entry reply_all_failed) ''faces'')"
  by code_simp+

lemma reply_text_score_not_renders: "\<not> reply_renders reply_text_score"
  by code_simp

lemma reply_image_id_object_not_renders: "\<not> reply_renders reply_image_id_object"
  by code_simp

lemma reply_face_error_null_face_facts:
  "truthy (opt (faces_entry reply_face_error_null_face) ''error'')"
  "\<not> reply_renders reply_face_error_null_face"
  "\<not> failure_entry FaceDetection (entry_of FaceDetection reply_face_error_null_face)"
  by code_simp+

lemma reply_exif_error_facts:
  "reply_renders reply_exif_error"
  "truthy (get_prop (exif_of reply_exif_error) ''error'')"
  "get_prop (results_of reply_exif_error) ''message'' = JUndefined"
  "get_prop (results_of reply_exif_error) ''suggestion'' = JUndefined"
  by code_simp+

lemma metadata_without_exif_analysis:
  "get_prop (metadata_without_exif msg sug) ''analysis'' = JUndefined"
  by (simp add: metadata_without_exif_def)

lemma reply_tamper_failed_facts:
  "frame_renders reply_tamper_failed"
  "failure_entry Tamper (entry_of Tamper reply_tamper_failed)"
  "slot_renders AiDetection (entry_of AiDetection reply_tamper_failed)"
  "slot_renders FaceDetection (entry_of FaceDetection reply_tamper_failed)"
  "opt (entry_of Tamper reply_tamper_failed) ''error'' = JStr ''model not loaded''"
  "\<not> has_exif reply_tamper_failed"
  "get_prop (results_of reply_tamper_failed) ''message'' = JUndefined"
  "get_prop (results_of reply_tamper_failed) ''suggestion'' = JUndefined"
  by code_simp+

lemma reply_all_failed_facts:
  "frame_renders reply_all_failed"
  "failure_entry FaceDetection (entry_of FaceDetection reply_all_failed)"
  "slot_renders Tamper (entry_of Tamper reply_all_failed)"
  "slot_renders AiDetection (entry_of AiDetection reply_all_failed)"
  "opt (entry_of FaceDetection reply_all_failed) ''error'' = JStr ''detector timed out''"
  "truthy (get_prop (exif_of reply_all_failed) ''error'')"
  "get_prop (results_of reply_all_failed) ''message'' = JUndefined"
  "get_prop (results_of reply_all_failed) ''suggestion'' = JUndefined"
  "truthy (opt (entry_of FaceDetection reply_all_failed) ''error'')"
  by code_simp+

lemma reply_tamper_failed_faces:
  "reply_renders reply_tamper_failed"
  "js_or (opt (faces_entry reply_tamper_failed) ''count'') (JNum 0) = JNum 1"
  "js_array_length (opt (faces_entry reply_tamper_failed) ''faces'') = 1"
  by code_simp+

lemma reply_tamper_failed_scores:
  "\<not> truthy (opt (tamper_entry reply_tamper_failed) ''integrity_score'')"
  "in_unit (opt (ai_entry reply_tamper_failed) ''confidence_score'')"
  "is_boolean (opt (ai_entry reply_tamper_failed) ''is_ai_generated'')"
  by code_simp+

lemma reply_tamper_failed_session:
  "get_prop reply_tamper_failed ''session_id'' = JStr ''sess-234567''"
  by code_simp

lemma reply_zero_faces_counted_facts:
  "reply_renders reply_zero_faces_counted"
  "js_or (opt (faces_entry reply_zero_faces_counted) ''count'') (JNum 0) = JNum 2"
  "js_array_length (opt (faces_entry reply_zero_faces_counted) ''faces'') = 0"
  by code_simp+

lemma reply_score_five_facts:
  "reply_renders reply_score_five"
  "js_or (opt (tamper_entry reply_score_five) ''integrity_score'') (JNum 0) = JNum 5"
  by code_simp+

lemma example_files_facts:
  "\<not> prefix ''image/'' (file_type example_pdf)"
  "file_size example_oversize > 10 * 1024 * 1024"
  "prefix ''image/'' (file_type example_empty_image)"
  "file_size example_empty_image = 0"
  by (simp_all add: example_pdf_def example_oversize_def example_empty_image_def)

lemma analyzeImage_ok_example:
  "\<exists>r. results (fst (analyzeImage example_runtime initial_hook_state example_file
                      (Response True 200 ''OK'' (Some reply_tamper_failed)))) = Some r"
proof -
  have "\<not> nullish reply_tamper_failed"
    by code_simp
  moreover obtain r where
    "transformPythonResponse example_runtime (JStr ''sess-234567'') reply_tamper_failed example_file
       = Inr r"
    using reply_tamper_failed_faces(1) transformPythonResponse_returns by blast
  ultimately show ?thesis
    using reply_tamper_failed_session
    by (simp add: analyzeImage_outcome analyze_try_def)
qed

lemma example_store_live:
  "live_session example_store 1700000000000 ''img-2'' ''sess-234567''"
  "live_session example_store 1700003599999 ''img-2'' ''sess-234567''"
  "\<not> live_session example_store 1700003600000 ''img-2'' ''sess-234567''"
  by (simp_all add: live_session_def example_store_def)




section \<open>C1: one slot per analyzer kind\<close>

text \<open>
  C1, as stated, fails: a reply whose tamper entry carries the score as text and no error
  makes \<^verbatim>\<open>toFixed\<close> throw, so \<open>transformPythonResponse\<close> yields no report at all.
\<close>

theorem transformPythonResponse_text_score_counterexample:
  "transformPythonResponse example_runtime JNull reply_text_score example_file = Inl TypeError"
  using reply_text_score_not_renders by (rule transformPythonResponse_not_renders)

text \<open>
  C1, amended: \<open>transformPythonResponse\<close> returns a report exactly on the replies that
  are not \<^verbatim>\<open>null\<close>, whose image id converts to text, whose EXIF width and height, where
  the reply has usable EXIF data, convert to text, whose scores are numbers or falsy
  wherever the entry carries no error, whose \<^verbatim>\<open>faces\<close> is missing or an array of faces
  that are not \<^verbatim>\<open>null\<close> and whose box corners convert to numbers, and whose face count
  converts to text wherever the face entry carries no error. The report then has exactly
  one slot for each of metadata, tamper, aiAnalysis, faceAnalysis and fileInfo, each of
  them an object, however many entries carry an error. On every other reply
  \<open>transformPythonResponse\<close> throws a TypeError.
\<close>

theorem transformPythonResponse_slots:
  "(reply_renders d \<longrightarrow>
      (\<exists>r. transformPythonResponse rt ref d f = Inr r
         \<and> object_keys r = [''metadata'', ''tamper'', ''aiAnalysis'', ''faceAnalysis'', ''fileInfo'',
              ''imageId'', ''publicImageUrl'', ''sessionId'', ''expiresAt'']
         \<and> is_object (get_prop r ''metadata'')
         \<and> is_object (get_prop r ''tamper'')
         \<and> is_object (get_prop r ''aiAnalysis'')
         \<and> is_object (get_prop r ''faceAnalysis'')
         \<and> is_object (get_prop r ''fileInfo'')))
   \<and> (\<not> reply_renders d \<longrightarrow> transformPythonResponse rt ref d f = Inl TypeError)"
proof (intro conjI impI)
  assume "reply_renders d"
  then obtain r where r: "transformPythonResponse rt ref d f = Inr r"
    using transformPythonResponse_returns [of rt ref d f] by blast
  from r obtain m t a fa fi where
    slots: "metadata_slot rt (has_exif d) (exif_of d) (get_prop (results_of d) ''message'')
              (get_prop (results_of d) ''suggestion'') = Inr m"
      "tamper_slot rt (tamper_entry d) = Inr t" "aiAnalysis_slot rt (ai_entry d) = Inr a"
      "faceAnalysis_slot rt (faces_entry d) = Inr fa"
      "fileInfo_slot rt (has_exif d) (exif_of d) d f = Inr fi"
    and reads: "get_prop r ''metadata'' = m" "get_prop r ''tamper'' = t"
      "get_prop r ''aiAnalysis'' = a" "get_prop r ''faceAnalysis'' = fa"
      "get_prop r ''fileInfo'' = fi"
    and keys: "object_keys r = [''metadata'', ''tamper'', ''aiAnalysis'', ''faceAnalysis'',
         ''fileInfo'', ''imageId'', ''publicImageUrl'', ''sessionId'', ''expiresAt'']"
    by (rule transformPythonResponse_Inr)
  have "is_object m" "is_object t" "is_object a" "is_object fa" "is_object fi"
    by (rule metadata_slot_object [OF slots(1)] tamper_slot_fields(1) [OF slots(2)]
          aiAnalysis_slot_fields(1) [OF slots(3)] faceAnalysis_slot_fields(1) [OF slots(4)]
          fileInfo_slot_object [OF slots(5)])+
  with r reads keys
  show "\<exists>r. transformPythonResponse rt ref d f = Inr r
         \<and> object_keys r = [''metadata'', ''tamper'', ''aiAnalysis'', ''faceAnalysis'', ''fileInfo'',
              ''imageId'', ''publicImageUrl'', ''sessionId'', ''expiresAt'']
         \<and> is_object (get_prop r ''metadata'')
         \<and> is_object (get_prop r ''tamper'')
         \<and> is_object (get_prop r ''aiAnalysis'')
         \<and> is_object (get_prop r ''faceAnalysis'')
         \<and> is_object (get_prop r ''fileInfo'')"
    by simp
next
  assume "\<not> reply_renders d"
  then show "transformPythonResponse rt ref d f = Inl TypeError"
    by (rule transformPythonResponse_not_renders)
qed

theorem transformPythonResponse_slots_witness:
  "reply_renders reply_all_failed
   \<and> (\<exists>r. transformPythonResponse example_runtime JNull reply_all_failed example_file = Inr r
          \<and> object_keys r = [''metadata'', ''tamper'', ''aiAnalysis'', ''faceAnalysis'',
               ''fileInfo'', ''imageId'', ''publicImageUrl'', ''sessionId'', ''expiresAt'']
          \<and> is_object (get_prop r ''metadata'')
          \<and> is_object (get_prop r ''tamper'')
          \<and> is_object (get_prop r ''aiAnalysis'')
          \<and> is_object (get_prop r ''faceAnalysis'')
          \<and> is_object (get_prop r ''fileInfo''))
   \<and> \<not> reply_renders reply_text_score
   \<and> transformPythonResponse example_runtime JNull reply_text_score example_file = Inl TypeError
   \<and> \<not> reply_renders reply_image_id_object
   \<and> transformPythonResponse example_runtime JNull reply_image_id_object example_file
       = Inl TypeError"
proof -
  have "\<exists>r. transformPythonResponse example_runtime JNull reply_all_failed example_file = Inr r
          \<and> object_keys r = [''metadata'', ''tamper'', ''aiAnalysis'', ''faceAnalysis'',
               ''fileInfo'', ''imageId'', ''publicImageUrl'', ''sessionId'', ''expiresAt'']
          \<and> is_object (get_prop r ''metadata'')
          \<and> is_object (get_prop r ''tamper'')
          \<and> is_object (get_prop r ''aiAnalysis'')
          \<and> is_object (get_prop r ''faceAnalysis'')
          \<and> is_object (get_prop r ''fileInfo'')"
    using transformPythonResponse_slots
      [where d = reply_all_failed and rt = example_runtime and ref = JNull and f = example_file]
      reply_all_failed_renders
    by simp
  moreover
  have "transformPythonResponse example_runtime JNull reply_text_score example_file = Inl TypeError"
    using transformPythonResponse_slots
      [where d = reply_text_score and rt = example_runtime and ref = JNull and f = example_file]
      reply_text_score_not_renders
    by simp
  moreover
  have "transformPythonResponse example_runtime JNull reply_image_id_object example_file
          = Inl TypeError"
    using transformPythonResponse_slots
      [where d = reply_image_id_object and rt = example_runtime and ref = JNull
         and f = example_file]
      reply_image_id_object_not_renders
    by simp
  ultimately show ?thesis
    using reply_all_failed_renders reply_text_score_not_renders reply_image_id_object_not_renders
    by (intro conjI)
qed

section \<open>C2: a failed analyzer is reported in its own slot\<close>

text \<open>
  C2, as stated, fails twice. A face entry that carries an error beside a list of faces
  holding \<^verbatim>\<open>null\<close> makes the transform throw, so there is no report at all. And the EXIF
  entry of the metadata analyzer may carry an error, but the metadata slot has no
  \<^verbatim>\<open>analysis\<close> and shows \<^verbatim>\<open>No EXIF data\<close> in place of the failure message.
\<close>

theorem analyzer_failure_counterexample:
  "truthy (opt (faces_entry reply_face_error_null_face) ''error'')
   \<and> transformPythonResponse example_runtime JNull reply_face_error_null_face example_file
       = Inl TypeError
   \<and> truthy (get_prop (exif_of reply_exif_error) ''error'')
   \<and> report_slot (transformPythonResponse example_runtime JNull reply_exif_error example_file)
        ''metadata'' = metadata_without_exif JUndefined JUndefined
   \<and> report_field (transformPythonResponse example_runtime JNull reply_exif_error example_file)
        ''metadata'' ''analysis'' = JUndefined"
proof -
  have "transformPythonResponse example_runtime JNull reply_face_error_null_face example_file
          = Inl TypeError"
    using reply_face_error_null_face_facts(2) by (rule transformPythonResponse_not_renders)
  moreover obtain r where
    r: "transformPythonResponse example_runtime JNull reply_exif_error example_file = Inr r"
    using reply_exif_error_facts(1) transformPythonResponse_returns by blast
  have "\<not> has_exif reply_exif_error"
    using reply_exif_error_facts(2) by (rule exif_error_no_exif)
  with r have "get_prop r ''metadata'' = metadata_without_exif JUndefined JUndefined"
    using transformPythonResponse_metadata_without_exif [of example_runtime JNull reply_exif_error
        example_file r] reply_exif_error_facts(3,4)
    by simp
  with r have "report_slot
        (transformPythonResponse example_runtime JNull reply_exif_error example_file) ''metadata''
          = metadata_without_exif JUndefined JUndefined"
    and "report_field
        (transformPythonResponse example_runtime JNull reply_exif_error example_file)
        ''metadata'' ''analysis'' = JUndefined"
    by (simp_all add: report_slot_Inr report_field_Inr metadata_without_exif_analysis)
  ultimately show ?thesis
    using reply_face_error_null_face_facts(1) reply_exif_error_facts(2) by blast
qed

text \<open>
  C2, amended: let the entry that the code reads for one of the tamper, AI and face
  analyzers carry an error. Then the transform returns a report exactly when the parts of
  the reply outside the analyzers can be rendered, the other two analyzer slots can be
  built and, for the face analyzer, the list of faces beside the error is missing or fit
  for mapping; otherwise it throws a TypeError. In every report it returns, the
  \<^verbatim>\<open>analysis\<close> of the failed analyzer's slot is the error message itself, and every
  analyzer slot is what its own slot function makes of its own entry alone. A failure of
  the metadata analyzer is not reported that way: when the EXIF entry carries an error, the
  metadata slot is the fixed \<^verbatim>\<open>No EXIF data\<close> slot with the reply's message and
  suggestion, and the failure message is dropped.
\<close>

theorem analyzer_failure_isolated:
  assumes "truthy (opt (entry_of a d) ''error'')"
  shows "(frame_renders d \<and> failure_entry a (entry_of a d)
            \<and> (\<forall>b. b \<noteq> a \<longrightarrow> slot_renders b (entry_of b d))
          \<longrightarrow> (\<exists>r. transformPythonResponse rt ref d f = Inr r))
       \<and> (\<not> (frame_renders d \<and> failure_entry a (entry_of a d)
               \<and> (\<forall>b. b \<noteq> a \<longrightarrow> slot_renders b (entry_of b d)))
          \<longrightarrow> transformPythonResponse rt ref d f = Inl TypeError)
       \<and> (\<forall>r. transformPythonResponse rt ref d f = Inr r \<longrightarrow>
             get_prop (get_prop r (slot_key a)) ''analysis'' = opt (entry_of a d) ''error''
             \<and> (\<forall>b. slot_of rt b (entry_of b d) = Inr (get_prop r (slot_key b)))
             \<and> (truthy (get_prop (exif_of d) ''error'') \<longrightarrow>
                  get_prop r ''metadata''
                    = metadata_without_exif (get_prop (results_of d) ''message'')
                        (get_prop (results_of d) ''suggestion'')))"
proof -
  have renders: "reply_renders d \<longleftrightarrow>
      frame_renders d \<and> failure_entry a (entry_of a d)
      \<and> (\<forall>b. b \<noteq> a \<longrightarrow> slot_renders b (entry_of b d))"
  proof
    assume "reply_renders d"
    then have frame: "frame_renders d" and slots: "\<forall>b. slot_renders b (entry_of b d)"
      by (simp_all add: reply_renders_slots)
    from slots assms have "failure_entry a (entry_of a d)"
      by (simp add: failure_entry_iff)
    with frame slots
    show "frame_renders d \<and> failure_entry a (entry_of a d)
      \<and> (\<forall>b. b \<noteq> a \<longrightarrow> slot_renders b (entry_of b d))"
      by blast
  next
    assume fits: "frame_renders d \<and> failure_entry a (entry_of a d)
      \<and> (\<forall>b. b \<noteq> a \<longrightarrow> slot_renders b (entry_of b d))"
    then have "slot_renders b (entry_of b d)" for b
      using failure_entry_renders [of a "entry_of a d"] by (cases "b = a") auto
    with fits show "reply_renders d"
      by (simp add: reply_renders_slots)
  qed
  have returned:
    "get_prop (get_prop r (slot_key a)) ''analysis'' = opt (entry_of a d) ''error''
     \<and> (\<forall>b. slot_of rt b (entry_of b d) = Inr (get_prop r (slot_key b)))
     \<and> (truthy (get_prop (exif_of d) ''error'') \<longrightarrow>
          get_prop r ''metadata''
            = metadata_without_exif (get_prop (results_of d) ''message'')
                (get_prop (results_of d) ''suggestion''))"
    if r: "transformPythonResponse rt ref d f = Inr r" for r
  proof -
    from r have "reply_renders d"
      using transformPythonResponse_returns [of rt ref d f] by blast
    then have "failure_entry a (entry_of a d)"
      using renders by blast
    then obtain sa where sa: "slot_of rt a (entry_of a d) = Inr sa"
      and analysis: "get_prop sa ''analysis'' = opt (entry_of a d) ''error''"
      using failure_entry_slot [of a "entry_of a d" rt] by blast
    have slots: "slot_of rt b (entry_of b d) = Inr (get_prop r (slot_key b))" for b
      using r by (rule transformPythonResponse_slot_of)
    from slots [of a] sa analysis
    have "get_prop (get_prop r (slot_key a)) ''analysis'' = opt (entry_of a d) ''error''"
      by simp
    moreover have "get_prop r ''metadata''
        = metadata_without_exif (get_prop (results_of d) ''message'')
            (get_prop (results_of d) ''suggestion'')"
      if "truthy (get_prop (exif_of d) ''error'')"
      using r exif_error_no_exif [OF that] by (rule transformPythonResponse_metadata_without_exif)
    ultimately show ?thesis
      using slots by blast
  qed
  show ?thesis
  proof (intro conjI allI impI)
    assume "frame_renders d \<and> failure_entry a (entry_of a d)
      \<and> (\<forall>b. b \<noteq> a \<longrightarrow> slot_renders b (entry_of b d))"
    then have "reply_renders d"
      using renders by blast
    then show "\<exists>r. transformPythonResponse rt ref d f = Inr r"
      using transformPythonResponse_returns [of rt ref d f] by blast
  next
    assume "\<not> (frame_renders d \<and> failure_entry a (entry_of a d)
      \<and> (\<forall>b. b \<noteq> a \<longrightarrow> slot_renders b (entry_of b d)))"
    then have "\<not> reply_renders d"
      using renders by blast
    then show "transformPythonResponse rt ref d f = Inl TypeError"
      by (rule transformPythonResponse_not_renders)
  next
    fix r
    assume r: "transformPythonResponse rt ref d f = Inr r"
    show "get_prop (get_prop r (slot_key a)) ''analysis'' = opt (entry_of a d) ''error''"
      using returned [OF r] by blast
    show "slot_of rt b (entry_of b d) = Inr (get_prop r (slot_key b))" for b
      using returned [OF r] by blast
    show "get_prop r ''metadata''
            = metadata_without_exif (get_prop (results_of d) ''message'')
                (get_prop (results_of d) ''suggestion'')"
      if "truthy (get_prop (exif_of d) ''error'')"
      using returned [OF r] that by blast
  qed
qed

theorem analyzer_failure_isolated_witness:
  "truthy (opt (entry_of FaceDetection reply_all_failed) ''error'')
   \<and> frame_renders reply_all_failed
   \<and> failure_entry FaceDetection (entry_of FaceDetection reply_all_failed)
   \<and> slot_renders Tamper (entry_of Tamper reply_all_failed)
   \<and> slot_renders AiDetection (entry_of AiDetection reply_all_failed)
   \<and> truthy (get_prop (exif_of reply_all_failed) ''error'')
   \<and> (\<exists>r. transformPythonResponse example_runtime JNull reply_all_failed example_file = Inr r
          \<and> get_prop (get_prop r ''faceAnalysis'') ''analysis'' = JStr ''detector timed out''
          \<and> slot_of example_runtime Tamper (entry_of Tamper reply_all_failed)
              = Inr (get_prop r ''tamper'')
          \<and> slot_of example_runtime AiDetection (entry_of AiDetection reply_all_failed)
              = Inr (get_prop r ''aiAnalysis'')
          \<and> get_prop r ''metadata'' = metadata_without_exif JUndefined JUndefined)
   \<and> truthy (opt (entry_of FaceDetection reply_face_error_null_face) ''error'')
   \<and> \<not> failure_entry FaceDetection (entry_of FaceDetection reply_face_error_null_face)
   \<and> transformPythonResponse example_runtime JNull reply_face_error_null_face example_file
       = Inl TypeError"
proof -
  note all_failed = analyzer_failure_isolated
    [OF reply_all_failed_facts(9), where rt = example_runtime and ref = JNull
       and f = example_file]
  have others: "\<forall>b. b \<noteq> FaceDetection \<longrightarrow> slot_renders b (entry_of b reply_all_failed)"
  proof (intro allI impI)
    fix b :: analyzer
    assume "b \<noteq> FaceDetection"
    then show "slot_renders b (entry_of b reply_all_failed)"
      using reply_all_failed_facts(3,4) by (cases b) auto
  qed
  with all_failed [THEN conjunct1] reply_all_failed_facts(1,2)
  obtain r where
    r: "transformPythonResponse example_runtime JNull reply_all_failed example_file = Inr r"
    by blast
  from all_failed [THEN conjunct2, THEN conjunct2, rule_format, OF r]
  have analysis: "get_prop (get_prop r (slot_key FaceDetection)) ''analysis''
       = opt (entry_of FaceDetection reply_all_failed) ''error''"
    and slots: "\<forall>b. slot_of example_runtime b (entry_of b reply_all_failed)
       = Inr (get_prop r (slot_key b))"
    and metadata: "truthy (get_prop (exif_of reply_all_failed) ''error'') \<longrightarrow>
       get_prop r ''metadata''
         = metadata_without_exif (get_prop (results_of reply_all_failed) ''message'')
             (get_prop (results_of reply_all_failed) ''suggestion'')"
    by blast+
  have "get_prop (get_prop r ''faceAnalysis'') ''analysis'' = JStr ''detector timed out''"
    using analysis reply_all_failed_facts(5) by simp
  moreover have "slot_of example_runtime Tamper (entry_of Tamper reply_all_failed)
      = Inr (get_prop r ''tamper'')"
    using slots [rule_format, of Tamper] by simp
  moreover have "slot_of example_runtime AiDetection (entry_of AiDetection reply_all_failed)
      = Inr (get_prop r ''aiAnalysis'')"
    using slots [rule_format, of AiDetection] by simp
  moreover have "get_prop r ''metadata'' = metadata_without_exif JUndefined JUndefined"
    using metadata reply_all_failed_facts(6,7,8) by simp
  ultimately have report:
    "\<exists>r. transformPythonResponse example_runtime JNull reply_all_failed example_file = Inr r
          \<and> get_prop (get_prop r ''faceAnalysis'') ''analysis'' = JStr ''detector timed out''
          \<and> slot_of example_runtime Tamper (entry_of Tamper reply_all_failed)
              = Inr (get_prop r ''tamper'')
          \<and> slot_of example_runtime AiDetection (entry_of AiDetection reply_all_failed)
              = Inr (get_prop r ''aiAnalysis'')
          \<and> get_prop r ''metadata'' = metadata_without_exif JUndefined JUndefined"
    using r by blast
  have face: "truthy (opt (entry_of FaceDetection reply_face_error_null_face) ''error'')"
    using reply_face_error_null_face_facts(1) by simp
  have thrown: "transformPythonResponse example_runtime JNull reply_face_error_null_face
      example_file = Inl TypeError"
    using analyzer_failure_isolated
      [OF face, where rt = example_runtime and ref = JNull and f = example_file,
       THEN conjunct2, THEN conjunct1]
      reply_face_error_null_face_facts(3)
    by blast
  from reply_all_failed_facts(9) reply_all_failed_facts(1) reply_all_failed_facts(2)
    reply_all_failed_facts(3) reply_all_failed_facts(4) reply_all_failed_facts(6) report face
    reply_face_error_null_face_facts(3) thrown
  show ?thesis
    by (intro conjI)
qed

section \<open>C3: upload validation\<close>

text \<open>
  C3, as stated, fails for the zero-byte file: \<open>validateFile\<close> tests the declared type
  and the ceiling only, so an empty file declared as an image passes and is handed to
  \<^verbatim>\<open>onImageUpload\<close>.
\<close>

theorem validateFile_zero_byte_counterexample:
  "file_size example_empty_image = 0
   \<and> validateFile example_empty_image = None
   \<and> snd (handleFiles initial_upload_state (Some [example_empty_image])) = Some example_empty_image"
  using example_files_facts(3,4)
  by (simp add: handleFiles_upload validateFile_None_iff)

text \<open>
  C3, amended: \<open>validateFile\<close> returns an error for a file whose declared type does not
  begin with \<^verbatim>\<open>image/\<close> and for a file of more than 10 MiB, and \<^verbatim>\<open>null\<close> for every other
  file, a zero-byte image included; \<open>handleFiles\<close> calls \<^verbatim>\<open>onImageUpload\<close> only
  with the first file of a non-empty list and only when \<open>validateFile\<close> returns \<^verbatim>\<open>null\<close>
  for it, and then it does call it.
\<close>

theorem upload_validation:
  "(\<not> prefix ''image/'' (file_type f) \<longrightarrow> validateFile f = Some ''Please upload a valid image file'')
   \<and> (prefix ''image/'' (file_type f) \<and> file_size f > 10 * 1024 * 1024
        \<longrightarrow> validateFile f = Some ''File size must be less than 10MB'')
   \<and> (prefix ''image/'' (file_type f) \<and> file_size f \<le> 10 * 1024 * 1024 \<longrightarrow> validateFile f = None)
   \<and> (\<forall>g. snd (handleFiles st files) = Some g
          \<longrightarrow> validateFile g = None \<and> (\<exists>rest. files = Some (g # rest)))
   \<and> (\<forall>rest. validateFile f = None \<longrightarrow> snd (handleFiles st (Some (f # rest))) = Some f)"
  by (auto simp: handleFiles_upload) (auto simp: validateFile_def)

theorem upload_validation_witness:
  "validateFile example_pdf = Some ''Please upload a valid image file''
   \<and> validateFile example_oversize = Some ''File size must be less than 10MB''
   \<and> validateFile example_empty_image = None
   \<and> snd (handleFiles initial_upload_state (Some [example_empty_image])) = Some example_empty_image
   \<and> snd (handleFiles initial_upload_state (Some [example_pdf])) = None"
proof -
  have big: "prefix ''image/'' (file_type example_oversize)"
    by (simp add: example_oversize_def)
  have pdf: "validateFile example_pdf = Some ''Please upload a valid image file''"
    using upload_validation [of example_pdf] example_files_facts(1) by blast
  have "snd (handleFiles initial_upload_state (Some [example_pdf])) \<noteq> Some g" for g
    using upload_validation [of example_pdf initial_upload_state "Some [example_pdf]"] pdf
    by auto
  then have none: "snd (handleFiles initial_upload_state (Some [example_pdf])) = None"
    by (cases "snd (handleFiles initial_upload_state (Some [example_pdf]))") auto
  have empty: "validateFile example_empty_image = None"
    using upload_validation [of example_empty_image] example_files_facts(3,4) by simp
  have "snd (handleFiles initial_upload_state (Some [example_empty_image])) = Some example_empty_image"
    using upload_validation [of example_empty_image initial_upload_state] empty by blast
  moreover have "validateFile example_oversize = Some ''File size must be less than 10MB''"
    using upload_validation [of example_oversize] example_files_facts(2) big by blast
  ultimately show ?thesis
    using pdf none empty by blast
qed

section \<open>C4: expiry\<close>

text \<open>
  C4, as stated, fails in its last part: thirty seconds before expiry the session is
  live and the time reported is zero minutes.
\<close>

theorem formatExpiryTime_last_minute_counterexample:
  "date_now example_runtime < 1700000030000
   \<and> formatExpiryTime example_runtime 1700000030000 = ''0m remaining''"
  by (simp add: formatExpiryTime_last_minute) (simp add: example_runtime_def)

text \<open>
  C4, amended: every report is stamped \<^verbatim>\<open>expiresAt = now + 3600000\<close> milliseconds, one
  hour after the moment it was built and so later than it, and at that moment
  \<open>formatExpiryTime\<close> shows one hour. \<open>formatExpiryTime\<close> reports \<^verbatim>\<open>Expired\<close> if and
  only if \<^verbatim>\<open>expiresAt <= now\<close>. Otherwise it reports the whole minutes left, the
  milliseconds left divided by 60000 and rounded down: below sixty as that number followed
  by \<^verbatim>\<open>m remaining\<close>, from sixty upwards as the whole hours, \<^verbatim>\<open>h\<close>, the minutes beyond
  them and \<^verbatim>\<open>m remaining\<close>, every number written in decimal without leading zeros. So
  the text is \<^verbatim>\<open>0m remaining\<close> throughout the last minute before expiry, and the time
  reported is positive only from one minute upwards.
\<close>

theorem session_expiry:
  "(transformPythonResponse rt ref d f = Inr r \<longrightarrow>
      get_prop r ''expiresAt'' = JNum (real_of_int (date_now rt + 3600000))
      \<and> date_now rt < date_now rt + 3600000)
   \<and> formatExpiryTime rt (date_now rt + 3600000) = ''1h 0m remaining''
   \<and> (formatExpiryTime rt expiresAt = ''Expired'' \<longleftrightarrow> expiresAt \<le> date_now rt)
   \<and> (formatExpiryTime rt expiresAt = ''0m remaining''
        \<longleftrightarrow> date_now rt < expiresAt \<and> expiresAt < date_now rt + 60000)
   \<and> (date_now rt < expiresAt \<longrightarrow>
        formatExpiryTime rt expiresAt =
          (let minutes = nat ((expiresAt - date_now rt) div 60000)
           in if minutes < 60 then show_nat minutes @ ''m remaining''
              else show_nat (minutes div 60) @ ''h '' @ show_nat (minutes mod 60)
                   @ ''m remaining''))
   \<and> read_decimal (show_nat n) = Some n"
proof (intro conjI impI)
  assume "transformPythonResponse rt ref d f = Inr r"
  then show "get_prop r ''expiresAt'' = JNum (real_of_int (date_now rt + 3600000))"
    by (elim transformPythonResponse_Inr) simp
next
  assume "date_now rt < expiresAt"
  then show "formatExpiryTime rt expiresAt =
          (let minutes = nat ((expiresAt - date_now rt) div 60000)
           in if minutes < 60 then show_nat minutes @ ''m remaining''
              else show_nat (minutes div 60) @ ''h '' @ show_nat (minutes mod 60)
                   @ ''m remaining'')"
    by (rule formatExpiryTime_minutes)
qed (simp_all add: formatExpiryTime_fresh formatExpiryTime_Expired formatExpiryTime_last_minute
       read_decimal_show_nat)

theorem session_expiry_witness:
  "\<exists>r. transformPythonResponse example_runtime JNull reply_tamper_failed example_file = Inr r
      \<and> get_prop r ''expiresAt'' = JNum 1700003600000
      \<and> formatExpiryTime example_runtime 1700003600000 = ''1h 0m remaining''
      \<and> formatExpiryTime example_runtime 1700000000000 = ''Expired''
      \<and> date_now example_runtime < 1700001830000
      \<and> formatExpiryTime example_runtime 1700001830000 = ''30m remaining''
      \<and> date_now example_runtime < 1700007530000
      \<and> formatExpiryTime example_runtime 1700007530000 = ''2h 5m remaining''
      \<and> read_decimal ''30'' = Some 30"
proof -
  obtain r where
    r: "transformPythonResponse example_runtime JNull reply_tamper_failed example_file = Inr r"
    using reply_tamper_failed_faces(1) transformPythonResponse_returns by blast
  have now: "date_now example_runtime = 1700000000000"
    by (simp add: example_runtime_def)
  have numerals: "show_nat 30 = ''30''" "show_nat 2 = ''2''" "show_nat 5 = ''5''"
    by (simp_all add: show_nat_step show_nat_digit digit_char_def)
  from session_expiry
    [where rt = example_runtime and ref = JNull and d = reply_tamper_failed and f = example_file
       and r = r and expiresAt = 1700000000000] r now
  have "get_prop r ''expiresAt'' = JNum 1700003600000
      \<and> formatExpiryTime example_runtime 1700003600000 = ''1h 0m remaining''
      \<and> formatExpiryTime example_runtime 1700000000000 = ''Expired''"
    by simp
  moreover from session_expiry
    [where rt = example_runtime and expiresAt = 1700001830000 and n = 30] now numerals
  have "formatExpiryTime example_runtime 1700001830000 = ''30m remaining''
      \<and> read_decimal ''30'' = Some 30"
    by simp
  moreover from session_expiry
    [where rt = example_runtime and expiresAt = 1700007530000] now numerals
  have "formatExpiryTime example_runtime 1700007530000 = ''2h 5m remaining''"
    by simp
  ultimately show ?thesis
    using r now by auto
qed

section \<open>C5: the engines of the reverse search\<close>



section \<open>C6: building the search URL twice\<close>

text \<open>
  C6: the backend's builder, as the spec describes it, returns the session store as it
  received it, and its answer is the same at any two moments at which the session is live;
  so a second call, made on the store the first call left, answers what the first did.
  On the client, what a reverse search requests and opens does not depend on the
  component's state, which every search leaves with \<^verbatim>\<open>searchLoading\<close> cleared: a second
  search with the same report, session, engine and backend answer repeats the first.
\<close>

theorem reverse_search_idempotent:
  "fst (build template base store now name iid sid') = store
   \<and> (live_session store now iid sid' \<and> live_session store now' iid sid' \<longrightarrow>
        snd (build template base (fst (build template base store now name iid sid')) now'
               name iid sid')
          = snd (build template base store now name iid sid')
        \<and> (\<forall>e. name = engine_name e \<longrightarrow>
              snd (build template base store now name iid sid')
                = Inr (template e (base @ ''/image/'' @ iid))))
   \<and> searchLoading (fst (performReverseSearch rt st res sid e outcome pb)) = None
   \<and> snd (performReverseSearch rt st' res sid e outcome pb)
       = snd (performReverseSearch rt st res sid e outcome pb)
   \<and> snd (performReverseSearch rt (fst (performReverseSearch rt st res sid e outcome pb))
             res sid e outcome pb)
       = snd (performReverseSearch rt st res sid e outcome pb)"
  using build_live_any_time [of store now iid sid' now' template base name]
    build_live [of store now iid sid' template base]
  by (auto simp: build_store performReverseSearch_state performReverseSearch_effects)

theorem reverse_search_idempotent_witness:
  "live_session example_store 1700000000000 ''img-2'' ''sess-234567''
   \<and> live_session example_store 1700003599999 ''img-2'' ''sess-234567''
   \<and> snd (build example_template ''https://forensics.example''
             (fst (build example_template ''https://forensics.example'' example_store
                     1700000000000 ''bing'' ''img-2'' ''sess-234567''))
             1700003599999 ''bing'' ''img-2'' ''sess-234567'')
       = snd (build example_template ''https://forensics.example'' example_store 1700000000000
                ''bing'' ''img-2'' ''sess-234567'')
   \<and> snd (build example_template ''https://forensics.example'' example_store 1700000000000
             ''bing'' ''img-2'' ''sess-234567'')
       = Inr ''https://www.bing.com/images/search?q=imgurl:https://forensics.example/image/img-2''"
proof -
  from reverse_search_idempotent
    [where template = example_template and base = "''https://forensics.example''"
       and store = example_store and now = 1700000000000 and now' = 1700003599999
       and name = "''bing''" and iid = "''img-2''" and sid' = "''sess-234567''"]
    example_store_live
  have "snd (build example_template ''https://forensics.example''
             (fst (build example_template ''https://forensics.example'' example_store
                     1700000000000 ''bing'' ''img-2'' ''sess-234567''))
             1700003599999 ''bing'' ''img-2'' ''sess-234567'')
       = snd (build example_template ''https://forensics.example'' example_store 1700000000000
                ''bing'' ''img-2'' ''sess-234567'')"
    and "\<forall>e. ''bing'' = engine_name e \<longrightarrow>
           snd (build example_template ''https://forensics.example'' example_store 1700000000000
                  ''bing'' ''img-2'' ''sess-234567'')
             = Inr (example_template e (''https://forensics.example'' @ ''/image/'' @ ''img-2''))"
    by blast+
  from this(1) this(2) [rule_format, of Bing] example_store_live show ?thesis
    by simp
qed

section \<open>C7: the count and the list of faces\<close>

text \<open>
  C7, as stated, fails: the count and the list are read from two independent fields of
  the reply. A reply that counts two faces and lists none gives a slot that does the same.
\<close>

theorem faceAnalysis_count_counterexample:
  "report_field
      (transformPythonResponse example_runtime JNull reply_zero_faces_counted example_file)
      ''faceAnalysis'' ''count'' = JNum 2
   \<and> report_field
      (transformPythonResponse example_runtime JNull reply_zero_faces_counted example_file)
      ''faceAnalysis'' ''faces'' = JArr []"
proof -
  obtain r where
    r: "transformPythonResponse example_runtime JNull reply_zero_faces_counted example_file = Inr r"
    using reply_zero_faces_counted_facts(1) transformPythonResponse_returns by blast
  have "get_prop (get_prop r ''faceAnalysis'') ''count'' = JNum 2"
    using faceAnalysis_reads(1) [OF r] reply_zero_faces_counted_facts(2) by simp
  moreover have "get_prop (get_prop r ''faceAnalysis'') ''faces'' = JArr []"
    using faceAnalysis_reads(2) [OF r] reply_zero_faces_counted_facts(3) by auto
  ultimately show ?thesis
    using r by (simp add: report_field_Inr)
qed

text \<open>
  C7, amended: the slot's \<^verbatim>\<open>faces\<close> is an array with exactly as many entries as the
  reply's list of faces (none when the reply has no list), and the slot's \<^verbatim>\<open>count\<close> is
  the reply's count passed through unchanged (0 when it is missing or falsy). So the count
  equals the number of face entries exactly when the reply's own count, read that way,
  equals the length of the reply's own list; an entry with neither, such as an error
  entry, gives a count of 0 and no faces.
\<close>

theorem faceAnalysis_count_faces:
  assumes "transformPythonResponse rt ref d f = Inr r"
  shows "get_prop (get_prop r ''faceAnalysis'') ''count''
           = js_or (opt (faces_entry d) ''count'') (JNum 0)
       \<and> is_array (get_prop (get_prop r ''faceAnalysis'') ''faces'')
       \<and> js_array_length (get_prop (get_prop r ''faceAnalysis'') ''faces'')
           = js_array_length (opt (faces_entry d) ''faces'')
       \<and> (get_prop (get_prop r ''faceAnalysis'') ''count''
             = JNum (real (js_array_length (get_prop (get_prop r ''faceAnalysis'') ''faces'')))
           \<longleftrightarrow> js_or (opt (faces_entry d) ''count'') (JNum 0)
             = JNum (real (js_array_length (opt (faces_entry d) ''faces''))))
       \<and> (nullish (opt (faces_entry d) ''count'') \<and> nullish (opt (faces_entry d) ''faces'')
           \<longrightarrow> get_prop (get_prop r ''faceAnalysis'') ''count'' = JNum 0
             \<and> get_prop (get_prop r ''faceAnalysis'') ''faces'' = JArr [])"
  using faceAnalysis_reads [OF assms]
  by (auto simp: nullish_iff js_or_def)

theorem faceAnalysis_count_faces_witness:
  "(\<exists>r. transformPythonResponse example_runtime JNull reply_tamper_failed example_file = Inr r
      \<and> get_prop (get_prop r ''faceAnalysis'') ''count'' = JNum 1
      \<and> is_array (get_prop (get_prop r ''faceAnalysis'') ''faces'')
      \<and> js_array_length (get_prop (get_prop r ''faceAnalysis'') ''faces'') = 1)
   \<and> (\<exists>r. transformPythonResponse example_runtime JNull reply_all_failed example_file = Inr r
      \<and> get_prop (get_prop r ''faceAnalysis'') ''count'' = JNum 0
      \<and> get_prop (get_prop r ''faceAnalysis'') ''faces'' = JArr [])"
proof -
  obtain r where
    r: "transformPythonResponse example_runtime JNull reply_tamper_failed example_file = Inr r"
    using reply_tamper_failed_faces(1) transformPythonResponse_returns by blast
  from faceAnalysis_count_faces [OF r] reply_tamper_failed_faces(2,3)
  have "get_prop (get_prop r ''faceAnalysis'') ''count'' = JNum 1
      \<and> is_array (get_prop (get_prop r ''faceAnalysis'') ''faces'')
      \<and> js_array_length (get_prop (get_prop r ''faceAnalysis'') ''faces'') = 1"
    by simp
  with r have one: "\<exists>r. transformPythonResponse example_runtime JNull reply_tamper_failed
        example_file = Inr r
      \<and> get_prop (get_prop r ''faceAnalysis'') ''count'' = JNum 1
      \<and> is_array (get_prop (get_prop r ''faceAnalysis'') ''faces'')
      \<and> js_array_length (get_prop (get_prop r ''faceAnalysis'') ''faces'') = 1"
    by blast
  obtain q where
    q: "transformPythonResponse example_runtime JNull reply_all_failed example_file = Inr q"
    using reply_all_failed_renders transformPythonResponse_returns by blast
  from faceAnalysis_count_faces [OF q] reply_all_failed_faces
  have "get_prop (get_prop q ''faceAnalysis'') ''count'' = JNum 0
      \<and> get_prop (get_prop q ''faceAnalysis'') ''faces'' = JArr []"
    by blast
  with q one show ?thesis by blast
qed

section \<open>C8: the ranges of the scores\<close>

text \<open>
  C8, as stated, fails: the scores are passed through as the reply has them. A reply whose
  integrity score is 5 gives a tamper confidence of 5.
\<close>

theorem tamper_confidence_counterexample:
  "report_field
      (transformPythonResponse example_runtime JNull reply_score_five example_file)
      ''tamper'' ''confidence'' = JNum 5
   \<and> \<not> in_unit (report_field
      (transformPythonResponse example_runtime JNull reply_score_five example_file)
      ''tamper'' ''confidence'')"
proof -
  obtain r where
    r: "transformPythonResponse example_runtime JNull reply_score_five example_file = Inr r"
    using reply_score_five_facts(1) transformPythonResponse_returns by blast
  have "get_prop (get_prop r ''tamper'') ''confidence'' = JNum 5"
    using score_reads(1) [OF r] reply_score_five_facts(2) by simp
  then show ?thesis
    using r by (simp add: report_field_Inr)
qed

text \<open>
  C8, amended: the tamper confidence is the reply's integrity score and the AI confidence
  the reply's confidence score, each replaced by 0 when missing or falsy, and the
  is-AI-generated flag is the reply's flag, replaced by \<^verbatim>\<open>false\<close> when missing or falsy.
  Hence a confidence is a number in the closed interval from 0 to 1 exactly when the
  reply's score is one or is falsy, and the flag is a boolean exactly when the reply's flag
  is one or is falsy.
\<close>

theorem confidence_passthrough:
  assumes "transformPythonResponse rt ref d f = Inr r"
  shows "get_prop (get_prop r ''tamper'') ''confidence''
           = js_or (opt (tamper_entry d) ''integrity_score'') (JNum 0)
       \<and> (in_unit (get_prop (get_prop r ''tamper'') ''confidence'')
           \<longleftrightarrow> \<not> truthy (opt (tamper_entry d) ''integrity_score'')
               \<or> in_unit (opt (tamper_entry d) ''integrity_score''))
       \<and> get_prop (get_prop r ''aiAnalysis'') ''confidence''
           = js_or (opt (ai_entry d) ''confidence_score'') (JNum 0)
       \<and> (in_unit (get_prop (get_prop r ''aiAnalysis'') ''confidence'')
           \<longleftrightarrow> \<not> truthy (opt (ai_entry d) ''confidence_score'')
               \<or> in_unit (opt (ai_entry d) ''confidence_score''))
       \<and> get_prop (get_prop r ''aiAnalysis'') ''isAiGenerated''
           = js_or (opt (ai_entry d) ''is_ai_generated'') (JBool False)
       \<and> (is_boolean (get_prop (get_prop r ''aiAnalysis'') ''isAiGenerated'')
           \<longleftrightarrow> \<not> truthy (opt (ai_entry d) ''is_ai_generated'')
               \<or> is_boolean (opt (ai_entry d) ''is_ai_generated''))"
  using score_reads [OF assms] by (simp add: in_unit_js_or is_boolean_js_or)

theorem confidence_passthrough_witness:
  "\<exists>r. transformPythonResponse example_runtime JNull reply_tamper_failed example_file = Inr r
      \<and> in_unit (get_prop (get_prop r ''tamper'') ''confidence'')
      \<and> in_unit (get_prop (get_prop r ''aiAnalysis'') ''confidence'')
      \<and> is_boolean (get_prop (get_prop r ''aiAnalysis'') ''isAiGenerated'')"
proof -
  obtain r where
    r: "transformPythonResponse example_runtime JNull reply_tamper_failed example_file = Inr r"
    using reply_tamper_failed_faces(1) transformPythonResponse_returns by blast
  from confidence_passthrough [OF r] reply_tamper_failed_scores
  have "in_unit (get_prop (get_prop r ''tamper'') ''confidence'')
      \<and> in_unit (get_prop (get_prop r ''aiAnalysis'') ''confidence'')
      \<and> is_boolean (get_prop (get_prop r ''aiAnalysis'') ''isAiGenerated'')"
    by blast
  with r show ?thesis by blast
qed

section \<open>C9: what a reset leaves alone\<close>

text \<open>
  C9: \<open>resetAnalysis\<close> sets \<^verbatim>\<open>results\<close> and \<^verbatim>\<open>uploadedImage\<close> to \<^verbatim>\<open>null\<close> and
  \<^verbatim>\<open>isAnalyzing\<close> to \<^verbatim>\<open>false\<close>, and leaves \<^verbatim>\<open>sessionIdRef.current\<close> as it was; so the
  session id that an upload stored is still there after a reset.
\<close>

theorem resetAnalysis_frame:
  "results (resetAnalysis st) = None
   \<and> uploadedImage (resetAnalysis st) = None
   \<and> isAnalyzing (resetAnalysis st) = False
   \<and> sessionIdRef (resetAnalysis st) = sessionIdRef st
   \<and> (get_prop data ''session_id'' = JStr sid \<and> sid \<noteq> [] \<longrightarrow>
        sessionIdRef (resetAnalysis
          (fst (analyzeImage rt st f (Response True status statusText (Some data))))) = JStr sid)"
  by (simp add: resetAnalysis_def analyzeImage_sessionIdRef analyze_try_session)

theorem resetAnalysis_frame_witness:
  "get_prop reply_tamper_failed ''session_id'' = JStr ''sess-234567''
   \<and> sessionIdRef (resetAnalysis
        (fst (analyzeImage example_runtime initial_hook_state example_file
               (Response True 200 ''OK'' (Some reply_tamper_failed))))) = JStr ''sess-234567''
   \<and> results (resetAnalysis
        (fst (analyzeImage example_runtime initial_hook_state example_file
               (Response True 200 ''OK'' (Some reply_tamper_failed))))) = None"
  using resetAnalysis_frame
    [where data = reply_tamper_failed and sid = "''sess-234567''" and rt = example_runtime
       and f = example_file and status = 200 and statusText = "''OK''"
       and st = initial_hook_state]
    resetAnalysis_frame
    [where st = "fst (analyzeImage example_runtime initial_hook_state example_file
               (Response True 200 ''OK'' (Some reply_tamper_failed)))"]
    reply_tamper_failed_session
  by simp

section \<open>C10: a failed request leaves no report\<close>

text \<open>
  C10: when \<open>analyzeImage\<close> has settled, \<^verbatim>\<open>isAnalyzing\<close> is \<^verbatim>\<open>false\<close>. If anything was
  thrown, as it is whenever \<^verbatim>\<open>fetch\<close> rejects or the response is not OK, \<^verbatim>\<open>results\<close> is
  \<^verbatim>\<open>null\<close>. If \<^verbatim>\<open>results\<close> is a report, nothing was thrown, the response was OK with a
  JSON body, and the report is what \<open>transformPythonResponse\<close> made of that body.
\<close>

theorem analyzeImage_atomic:
  "isAnalyzing (fst (analyzeImage rt st f outcome)) = False
   \<and> (snd (analyzeImage rt st f outcome) \<noteq> None
        \<longrightarrow> results (fst (analyzeImage rt st f outcome)) = None)
   \<and> (request_failed outcome \<longrightarrow> snd (analyzeImage rt st f outcome) \<noteq> None)
   \<and> (\<forall>r. results (fst (analyzeImage rt st f outcome)) = Some r \<longrightarrow>
          snd (analyzeImage rt st f outcome) = None
          \<and> (\<exists>status statusText data.
                outcome = Response True status statusText (Some data)
                \<and> transformPythonResponse rt (sessionIdRef (fst (analyzeImage rt st f outcome)))
                     data f = Inr r))"
proof (intro conjI allI impI)
  show "isAnalyzing (fst (analyzeImage rt st f outcome)) = False"
    by (rule analyzeImage_outcome(3))
next
  assume "snd (analyzeImage rt st f outcome) \<noteq> None"
  then show "results (fst (analyzeImage rt st f outcome)) = None"
    by (simp add: analyzeImage_outcome split: sum.splits)
next
  assume "request_failed outcome"
  then show "snd (analyzeImage rt st f outcome) \<noteq> None"
    using analyze_try_failed [of outcome rt "sessionIdRef st" f]
    by (auto simp: analyzeImage_outcome)
next
  fix r
  assume r: "results (fst (analyzeImage rt st f outcome)) = Some r"
  then have tried: "snd (analyze_try rt (sessionIdRef st) f outcome) = Inr r"
    by (simp add: analyzeImage_outcome split: sum.splits)
  then show "snd (analyzeImage rt st f outcome) = None"
    by (simp add: analyzeImage_outcome)
  from analyze_try_Inr [OF tried]
  show "\<exists>status statusText data.
          outcome = Response True status statusText (Some data)
          \<and> transformPythonResponse rt (sessionIdRef (fst (analyzeImage rt st f outcome)))
               data f = Inr r"
    by (simp add: analyzeImage_sessionIdRef)
qed

theorem analyzeImage_atomic_witness:
  "request_failed FetchRejected
   \<and> results (fst (analyzeImage example_runtime initial_hook_state example_file FetchRejected)) = None
   \<and> isAnalyzing (fst (analyzeImage example_runtime initial_hook_state example_file FetchRejected))
       = False
   \<and> request_failed (Response False 500 ''Internal Server Error'' None)
   \<and> results (fst (analyzeImage example_runtime initial_hook_state example_file
                     (Response False 500 ''Internal Server Error'' None))) = None
   \<and> (\<exists>r. results (fst (analyzeImage example_runtime initial_hook_state example_file
                          (Response True 200 ''OK'' (Some reply_tamper_failed)))) = Some r
          \<and> snd (analyzeImage example_runtime initial_hook_state example_file
                   (Response True 200 ''OK'' (Some reply_tamper_failed))) = None
          \<and> transformPythonResponse example_runtime (JStr ''sess-234567'') reply_tamper_failed
               example_file = Inr r)"
proof -
  have a: "results (fst (analyzeImage example_runtime initial_hook_state example_file FetchRejected))
             = None"
    "isAnalyzing (fst (analyzeImage example_runtime initial_hook_state example_file FetchRejected))
             = False"
    using analyzeImage_atomic [of example_runtime initial_hook_state example_file FetchRejected]
    by simp_all
  have b: "results (fst (analyzeImage example_runtime initial_hook_state example_file
                     (Response False 500 ''Internal Server Error'' None))) = None"
    using analyzeImage_atomic [of example_runtime initial_hook_state example_file
        "Response False 500 ''Internal Server Error'' None"]
    by simp
  obtain r where r: "results (fst (analyzeImage example_runtime initial_hook_state example_file
                      (Response True 200 ''OK'' (Some reply_tamper_failed)))) = Some r"
    using analyzeImage_ok_example by blast
  have ref: "sessionIdRef (fst (analyzeImage example_runtime initial_hook_state example_file
                      (Response True 200 ''OK'' (Some reply_tamper_failed)))) = JStr ''sess-234567''"
    using reply_tamper_failed_session
    by (simp add: analyzeImage_sessionIdRef analyze_try_session)
  have "snd (analyzeImage example_runtime initial_hook_state example_file
                   (Response True 200 ''OK'' (Some reply_tamper_failed))) = None
        \<and> transformPythonResponse example_runtime (JStr ''sess-234567'') reply_tamper_failed
               example_file = Inr r"
    using analyzeImage_atomic [of example_runtime initial_hook_state example_file
        "Response True 200 ''OK'' (Some reply_tamper_failed)"] r ref
    by auto
  with a b r show ?thesis by auto
qed

end
